theory Spec2Isabelle
  imports Main "HOL-Library.Word"
begin

unbundle bit_operations_syntax

chapter \<open>A shallow embedding of the go-mongo BSON codec and collection layer\<close>

text \<open>
  The development follows the Go sources: the BSON value types and the object id
  generator, the struct metadata compiler, the collection operations with their
  write acknowledgement, and the BSON decoder. Bytes are \<open>8 word\<close>; Go's
  \<open>int64\<close> and \<open>uint64\<close> are \<open>64 word\<close>, read with \<open>sint\<close> or \<open>unat\<close>.
\<close>

type_synonym byte = "8 word"

section \<open>Object identifiers\<close>

text \<open>
  An \<open>ObjectId\<close> is a Go string, that is a sequence of bytes. \<open>newObjectId\<close> takes the
  time as an \<open>int64\<close> and the counter as a \<open>uint64\<close>; \<open>t >> k\<close> on the signed \<open>t\<close> is the
  arithmetic shift and \<open>byte(x)\<close> keeps the low eight bits.
\<close>

type_synonym ObjectId = "byte list"

definition newObjectId :: "64 word \<Rightarrow> 64 word \<Rightarrow> ObjectId" where
  "newObjectId t c =
     [ucast (signed_drop_bit 24 t), ucast (signed_drop_bit 16 t),
      ucast (signed_drop_bit 8 t), ucast t,
      ucast (drop_bit 56 c), ucast (drop_bit 48 c), ucast (drop_bit 40 c),
      ucast (drop_bit 32 c), ucast (drop_bit 24 c), ucast (drop_bit 16 c),
      ucast (drop_bit 8 c), ucast c]"

definition MaxObjectIdForTime :: "64 word \<Rightarrow> ObjectId" where
  "MaxObjectIdForTime t = newObjectId t 0xffffffffffffffff"

definition MinObjectIdForTime :: "64 word \<Rightarrow> ObjectId" where
  "MinObjectIdForTime t = newObjectId t 0"

definition CreationTime :: "ObjectId \<Rightarrow> 64 word" where
  "CreationTime oid =
     (if length oid \<noteq> 12 then 0
      else push_bit 24 (ucast (oid ! 0)) + push_bit 16 (ucast (oid ! 1))
           + push_bit 8 (ucast (oid ! 2)) + ucast (oid ! 3))"

text \<open>
  The process-wide counter: seeded from the random source \<open>rnd\<close> while it is zero,
  then incremented (with wrap-around) and returned. \<open>NewObjectId\<close> reads the clock
  \<open>now\<close> and the next counter value.
\<close>

definition nextOidCounter :: "64 word \<Rightarrow> 64 word \<Rightarrow> 64 word \<times> 64 word" where
  "nextOidCounter rnd oidCounter =
     (let c = (if oidCounter = 0 then rnd else oidCounter) in (c + 1, c + 1))"

definition NewObjectId :: "64 word \<Rightarrow> 64 word \<Rightarrow> 64 word \<Rightarrow> ObjectId \<times> 64 word" where
  "NewObjectId now rnd oidCounter =
     (let (c, oidCounter') = nextOidCounter rnd oidCounter
      in (newObjectId now c, oidCounter'))"

text \<open>
  The specification's reading of a byte sequence as a big-endian number, most
  significant byte first. It is the yardstick for the layout of an object id and is
  not taken from the code.
\<close>

definition be_nat :: "byte list \<Rightarrow> nat" where
  "be_nat bs = foldl (\<lambda>a b. a * 256 + unat b) 0 bs"

section \<open>Go types and values\<close>

text \<open>
  The decoder and the struct metadata work by reflection. The embedding carries the
  part of Go's type structure they inspect: the kind of a type, the element, key and
  field types, and the identity of named types. A named type \<open>TNamed n u\<close> has the name
  \<open>n\<close> and the underlying type \<open>u\<close>; an interface type lists its methods, so that
  \<open>interface{}\<close> is \<open>TInterface []\<close>. A struct field carries what \<open>reflect.StructField\<close>
  gives: its name, its package path (empty for an exported field), whether it is
  embedded, the value of its \<open>bson\<close> tag, and its type.
\<close>

datatype Kind =
    reflect_Invalid | reflect_Bool
  | reflect_Int | reflect_Int8 | reflect_Int16 | reflect_Int32 | reflect_Int64
  | reflect_Uint | reflect_Uint8 | reflect_Uint16 | reflect_Uint32 | reflect_Uint64
  | reflect_Uintptr | reflect_Float32 | reflect_Float64
  | reflect_Complex64 | reflect_Complex128
  | reflect_Array | reflect_Chan | reflect_Func | reflect_Interface | reflect_Map
  | reflect_Ptr | reflect_Slice | reflect_String | reflect_Struct | reflect_UnsafePointer

datatype gtype =
    TBool
  | TInt | TInt8 | TInt16 | TInt32 | TInt64
  | TUint | TUint8 | TUint16 | TUint32 | TUint64
  | TFloat32 | TFloat64
  | TString
  | TMap gtype gtype
  | TStruct "field list"
  | TSlice gtype
  | TArray nat gtype
  | TPtr gtype
  | TInterface "string list"
  | TNamed string gtype
  | TOther Kind
and field = Field (f_Name: string) (f_PkgPath: string) (f_Anonymous: bool)
                  (f_Tag: string) (f_Type: gtype)

text \<open>
  Values are trees: a pointer holds its target, an interface holds the dynamic type and
  value, a map is an association list with distinct keys, and a slice is the elements
  up to its length together with the elements of its backing array between length and
  capacity. Integers are kept as mathematical integers within the range of their type,
  a \<open>float64\<close> as its IEEE bit pattern.
\<close>

datatype gval =
    VBool bool
  | VInt int
  | VUint int
  | VFloat "64 word"
  | VString string
  | VMap "(string \<times> gval) list option"
  | VStruct "gval list"
  | VSlice "(gval list \<times> gval list) option"
  | VArray "gval list"
  | VPtr "gval option"
  | VIface "(gtype \<times> gval) option"
  | VOther

type_synonym iface = "(gtype \<times> gval) option"

abbreviation go_int :: "int \<Rightarrow> iface" where
  "go_int n \<equiv> Some (TInt, VInt n)"

abbreviation go_string :: "string \<Rightarrow> iface" where
  "go_string s \<equiv> Some (TString, VString s)"

fun Kind_of :: "gtype \<Rightarrow> Kind" where
  "Kind_of TBool = reflect_Bool"
| "Kind_of TInt = reflect_Int"
| "Kind_of TInt8 = reflect_Int8"
| "Kind_of TInt16 = reflect_Int16"
| "Kind_of TInt32 = reflect_Int32"
| "Kind_of TInt64 = reflect_Int64"
| "Kind_of TUint = reflect_Uint"
| "Kind_of TUint8 = reflect_Uint8"
| "Kind_of TUint16 = reflect_Uint16"
| "Kind_of TUint32 = reflect_Uint32"
| "Kind_of TUint64 = reflect_Uint64"
| "Kind_of TFloat32 = reflect_Float32"
| "Kind_of TFloat64 = reflect_Float64"
| "Kind_of TString = reflect_String"
| "Kind_of (TMap k e) = reflect_Map"
| "Kind_of (TStruct fs) = reflect_Struct"
| "Kind_of (TSlice e) = reflect_Slice"
| "Kind_of (TArray n e) = reflect_Array"
| "Kind_of (TPtr e) = reflect_Ptr"
| "Kind_of (TInterface ms) = reflect_Interface"
| "Kind_of (TNamed n u) = Kind_of u"
| "Kind_of (TOther k) = k"

text \<open>\<open>reflect.Zero\<close>: the zero value of a type.\<close>

fun Zero :: "gtype \<Rightarrow> gval" and ZeroFields :: "field list \<Rightarrow> gval list" where
  "Zero TBool = VBool False"
| "Zero TInt = VInt 0"
| "Zero TInt8 = VInt 0"
| "Zero TInt16 = VInt 0"
| "Zero TInt32 = VInt 0"
| "Zero TInt64 = VInt 0"
| "Zero TUint = VUint 0"
| "Zero TUint8 = VUint 0"
| "Zero TUint16 = VUint 0"
| "Zero TUint32 = VUint 0"
| "Zero TUint64 = VUint 0"
| "Zero TFloat32 = VFloat 0"
| "Zero TFloat64 = VFloat 0"
| "Zero TString = VString []"
| "Zero (TMap k e) = VMap None"
| "Zero (TStruct fs) = VStruct (ZeroFields fs)"
| "Zero (TSlice e) = VSlice None"
| "Zero (TArray n e) = VArray (replicate n (Zero e))"
| "Zero (TPtr e) = VPtr None"
| "Zero (TInterface ms) = VIface None"
| "Zero (TNamed n u) = Zero u"
| "Zero (TOther k) = VOther"
| "ZeroFields [] = []"
| "ZeroFields (Field nm pkg anon tg t # fs) = Zero t # ZeroFields fs"

section \<open>Errors and panics\<close>

text \<open>
  \<open>MongoError\<close> is the write error parsed from the acknowledgement; it is also an error
  value. The error values of the package are one datatype: the decoder's
  \<open>ErrEOD\<close>, its ``doc length wrong'' error, its convert and type errors and the three
  errors of \<open>decodeInternal\<close> about the target; the not-found sentinel; an error
  reported by the connection or one of its cursors, with its message; the error made
  from a command response; and a \<open>MongoError\<close>.
\<close>

record MongoError =
  Err :: string
  N :: int
  Code :: int
  Updated :: bool
  UpsertedId :: iface

datatype error =
    ErrEOD
  | ErrDocLength
  | DecodeConvertError int gtype
  | DecodeTypeError int
  | ErrMapNil
  | ErrPointerNil
  | ErrNotPointerOrMap
  | ErrNotFound
  | ConnError string
  | CommandError string
  | WriteError MongoError

text \<open>
  \<open>abort\<close> panics with the value \<open>aborted{err}\<close>, which \<open>handleAbort\<close> recovers. Any
  other panic (of \<open>reflect\<close>, of the runtime on an index or a slice bound, or raised with
  another value) is not recovered by these sources: it is the outcome \<open>Panicked\<close>. The
  decoder's loops are bounded by fuel in the embedding; \<open>OutOfFuel\<close> says that the bound
  was reached before the decoder returned.
\<close>

datatype fault = Aborted error | Panicked | OutOfFuel

definition abort :: "error \<Rightarrow> fault + 'a" where
  "abort err = Inl (Aborted err)"

section \<open>Ordered documents and struct metadata\<close>

text \<open>
  \<open>D\<close> is the ordered document: a sequence of \<open>DocItem\<close>s, each a key and a value of
  type \<open>interface{}\<close>.
\<close>

type_synonym D = "(string \<times> iface) list"

definition Append :: "D \<Rightarrow> string \<Rightarrow> iface \<Rightarrow> D" where
  "Append d nm v = d @ [(nm, v)]"

text \<open>
  The fields of \<open>fieldInfo\<close> and \<open>structInfo\<close> carry a prefix, since \<open>name\<close>, \<open>index\<close>,
  \<open>m\<close> and \<open>l\<close> would capture the variables of every later statement.
\<close>

record fieldInfo =
  fi_name :: string
  fi_index :: "nat list"
  fi_conditional :: bool

record structInfo =
  si_m :: "string \<rightharpoonup> fieldInfo"
  si_l :: "fieldInfo list"
  si_fields :: D

definition FieldInfo :: "structInfo \<Rightarrow> string \<Rightarrow> fieldInfo option" where
  "FieldInfo si nm = si_m si nm"

text \<open>\<open>strings.Split\<close> with a separator of one character.\<close>

fun strings_Split :: "string \<Rightarrow> char \<Rightarrow> string list" where
  "strings_Split [] sep = [[]]"
| "strings_Split (x # xs) sep =
     (if x = sep then [] # strings_Split xs sep
      else (case strings_Split xs sep of
              w # ws \<Rightarrow> (x # w) # ws
            | [] \<Rightarrow> [[x]]))"

text \<open>The loop over the flags \<open>p[1:]\<close> of a tag: \<open>c\<close> sets \<open>conditional\<close>, any other flag panics.\<close>

fun fieldFlags :: "string list \<Rightarrow> fieldInfo \<Rightarrow> fault + fieldInfo" where
  "fieldFlags [] fi = Inr fi"
| "fieldFlags (s # ss) fi =
     (if s = ''c'' then fieldFlags ss (fi\<lparr>fi_conditional := True\<rparr>)
      else Inl Panicked)"

definition fieldTag :: "string \<Rightarrow> string \<Rightarrow> fault + fieldInfo" where
  "fieldTag nm tg =
     (let fi = \<lparr>fi_name = nm, fi_index = [], fi_conditional = False\<rparr>;
          p = strings_Split tg CHR ''/''
      in if length p > 0
         then fieldFlags (tl p) (if length (hd p) > 0 then fi\<lparr>fi_name := hd p\<rparr> else fi)
         else Inr fi)"

text \<open>The compaction loop of the same-depth case: the entries of \<open>l\<close> with another name stay.\<close>

fun removeName :: "string \<Rightarrow> fieldInfo list \<Rightarrow> fieldInfo list" where
  "removeName nm [] = []"
| "removeName nm (x # xs) =
     (if nm \<noteq> fi_name x then x # removeName nm xs else removeName nm xs)"

text \<open>
  \<open>compileStructInfo\<close> walks the fields of a struct type in order; \<open>compileFields\<close> is
  its loop, with the field number \<open>i\<close>. \<open>NumField\<close> panics on a type that is not a struct.
\<close>

fun compileStructInfo ::
    "gtype \<Rightarrow> (string \<rightharpoonup> nat) \<Rightarrow> nat list \<Rightarrow> structInfo
      \<Rightarrow> fault + ((string \<rightharpoonup> nat) \<times> structInfo)"
and compileFields ::
    "field list \<Rightarrow> nat \<Rightarrow> (string \<rightharpoonup> nat) \<Rightarrow> nat list \<Rightarrow> structInfo
      \<Rightarrow> fault + ((string \<rightharpoonup> nat) \<times> structInfo)"
where
  "compileStructInfo (TStruct fs) depth index si = compileFields fs 0 depth index si"
| "compileStructInfo (TNamed n u) depth index si = compileStructInfo u depth index si"
| "compileStructInfo t depth index si = Inl Panicked"
| "compileFields [] i depth index si = Inr (depth, si)"
| "compileFields (Field nm pkg anon tg ty # fs) i depth index si =
     (if pkg \<noteq> [] then compileFields fs (i + 1) depth index si
      else if anon then
        (if Kind_of ty = reflect_Struct then
           (case compileStructInfo ty depth (index @ [i]) si of
              Inl e \<Rightarrow> Inl e
            | Inr (depth', si') \<Rightarrow> compileFields fs (i + 1) depth' index si')
         else compileFields fs (i + 1) depth index si)
      else
        (case fieldTag nm tg of
           Inl e \<Rightarrow> Inl e
         | Inr fi \<Rightarrow>
             (let d = (case depth (fi_name fi) of None \<Rightarrow> 2 ^ 30 | Some d \<Rightarrow> d)
              in if length index = d then
                   compileFields fs (i + 1) depth index
                     (si\<lparr>si_m := (si_m si)(fi_name fi := None),
                         si_l := removeName (fi_name fi) (si_l si)\<rparr>)
                 else if length index < d then
                   (let fi' = fi\<lparr>fi_index := index @ [i]\<rparr>
                    in compileFields fs (i + 1) (depth(fi_name fi \<mapsto> length index)) index
                         (si\<lparr>si_m := (si_m si)(fi_name fi \<mapsto> fi'),
                             si_l := si_l si @ [fi']\<rparr>))
                 else compileFields fs (i + 1) depth index si)))"

text \<open>The loop of \<open>structInfoForType\<close> over \<open>si.l\<close> that fills the projection.\<close>

fun projectFields :: "fieldInfo list \<Rightarrow> bool \<Rightarrow> D \<Rightarrow> bool \<times> D" where
  "projectFields [] hasId flds = (hasId, flds)"
| "projectFields (fi # fis) hasId flds =
     (if fi_name fi = ''_id'' then projectFields fis True flds
      else projectFields fis hasId (Append flds (fi_name fi) (go_int 1)))"

text \<open>What \<open>structInfoForType\<close> computes when the type is not in the cache.\<close>

definition buildStructInfo :: "gtype \<Rightarrow> fault + structInfo" where
  "buildStructInfo t =
     (case compileStructInfo t Map.empty [] \<lparr>si_m = Map.empty, si_l = [], si_fields = []\<rparr> of
        Inl e \<Rightarrow> Inl e
      | Inr (depth, si) \<Rightarrow>
          (let (hasId, flds) = projectFields (si_l si) False (si_fields si)
           in Inr (si\<lparr>si_fields :=
                       (if \<not> hasId then Append flds ''_id'' (go_int 0) else flds)\<rparr>)))"






text \<open>Struct types used as examples: an embedded struct that declares \<open>X\<close> before the outer
  struct does, and a struct with a field tagged \<open>_id\<close>.\<close>

definition example_inner :: gtype where
  "example_inner = TStruct [Field ''X'' '''' False '''' TInt]"

definition example_outer :: gtype where
  "example_outer =
     TStruct [Field ''E'' '''' True '''' example_inner, Field ''X'' '''' False '''' TInt]"













section \<open>Connections, databases and collections\<close>

text \<open>
  The option structs and the \<open>Conn\<close> interface are declared outside these sources. The
  records below have the fields that the sources set; \<open>InsertOptions\<close> is only ever
  passed as \<open>nil\<close>.
\<close>

record UpdateOptions =
  Upsert :: bool
  Multi :: bool

record RemoveOptions =
  Single :: bool

record FindOptions =
  BatchSize :: int
  SlaveOk :: bool

typedecl InsertOptions

definition upsertOptions :: UpdateOptions where
  "upsertOptions = \<lparr>Upsert = True, Multi = False\<rparr>"

definition updateAllOptions :: UpdateOptions where
  "updateAllOptions = \<lparr>Upsert = False, Multi = True\<rparr>"

definition removeFirstOptions :: RemoveOptions where
  "removeFirstOptions = \<lparr>Single = True\<rparr>"

definition runFindOptions :: FindOptions where
  "runFindOptions = \<lparr>BatchSize = - 1, SlaveOk = False\<rparr>"

text \<open>\<open>map[string]int{"getLastError": 1}\<close>, held in an \<open>interface{}\<close>.\<close>

definition DefaultLastErrorCmd :: iface where
  "DefaultLastErrorCmd = Some (TMap TString TInt, VMap (Some [(''getLastError'', VInt 1)]))"

record CommandResponse =
  Ok :: bool
  Errmsg :: string

definition CommandResponse_Error :: "CommandResponse \<Rightarrow> error option" where
  "CommandResponse_Error s =
     (if Ok s then None
      else (let errmsg = (if Errmsg s = '''' then ''unspecified error'' else Errmsg s)
            in Some (CommandError errmsg)))"

text \<open>
  \<open>IndexOptions\<close>; its fields \<open>Min\<close> and \<open>Max\<close> are \<open>MinOpt\<close> and \<open>MaxOpt\<close> here. The index
  descriptor is the anonymous struct of \<open>CreateIndex\<close> with the embedded options. The
  struct that \<open>LastError\<close> decodes the reply into embeds \<open>CommandResponse\<close> and
  \<open>MongoError\<close>.
\<close>

record IndexOptions =
  Name :: string
  Unique :: bool
  DropDups :: bool
  Background :: bool
  Sparse :: bool
  MinOpt :: iface
  MaxOpt :: iface
  Bits :: int

definition IndexOptions_zero :: IndexOptions where
  "IndexOptions_zero =
     \<lparr>Name = '''', Unique = False, DropDups = False, Background = False, Sparse = False,
      MinOpt = None, MaxOpt = None, Bits = 0\<rparr>"

record indexDescriptor =
  Keys :: D
  IndexNamespace :: string
  Options :: IndexOptions

record lastErrorReply =
  reply_CommandResponse :: CommandResponse
  reply_MongoError :: MongoError

definition lastErrorReply_zero :: lastErrorReply where
  "lastErrorReply_zero =
     \<lparr>reply_CommandResponse = \<lparr>Ok = False, Errmsg = ''''\<rparr>,
      reply_MongoError = \<lparr>Err = '''', N = 0, Code = 0, Updated = False, UpsertedId = None\<rparr>\<rparr>"

text \<open>A document handed to \<open>Insert\<close>: any value, or the pointer to an index descriptor.\<close>

datatype document = Doc iface | IndexDoc indexDescriptor

text \<open>
  The connection is a parameter: its operations act on a state \<open>'s\<close> (the server and the
  socket) and report an error by its message. A cursor \<open>'c\<close> comes from \<open>Find\<close>;
  \<open>Cursor_Next\<close> is its \<open>Next\<close> on the reply struct of \<open>LastError\<close>, giving the struct as
  it stands after the call and the error. The errors of the connection are kept apart
  from the sentinel \<open>ErrNotFound\<close>, which is a variable of this package.
\<close>

record ('c, 's) Conn =
  Conn_Update :: "string \<Rightarrow> iface \<Rightarrow> iface \<Rightarrow> UpdateOptions option \<Rightarrow> 's \<Rightarrow> string option \<times> 's"
  Conn_Insert :: "string \<Rightarrow> InsertOptions option \<Rightarrow> document list \<Rightarrow> 's \<Rightarrow> string option \<times> 's"
  Conn_Remove :: "string \<Rightarrow> iface \<Rightarrow> RemoveOptions option \<Rightarrow> 's \<Rightarrow> string option \<times> 's"
  Conn_Find :: "string \<Rightarrow> iface \<Rightarrow> FindOptions \<Rightarrow> 's \<Rightarrow> (string + 'c) \<times> 's"
  Cursor_Next :: "'c \<Rightarrow> lastErrorReply \<Rightarrow> 's \<Rightarrow> (lastErrorReply \<times> string option) \<times> 's"
  Cursor_Close :: "'c \<Rightarrow> 's \<Rightarrow> string option \<times> 's"

record ('c, 's) Database =
  DbConn :: "('c, 's) Conn"
  DbName :: string
  DbLastErrorCmd :: iface

record ('c, 's) Collection =
  Conn :: "('c, 's) Conn"
  Namespace :: string
  LastErrorCmd :: iface

text \<open>\<open>strings.Index\<close> for a separator of one character: the first position, or \<open>-1\<close>.\<close>

fun strings_Index :: "string \<Rightarrow> char \<Rightarrow> int" where
  "strings_Index [] c = - 1"
| "strings_Index (x # xs) c =
     (if x = c then 0
      else (let i = strings_Index xs c in if i < 0 then - 1 else i + 1))"

definition SplitNamespace :: "string \<Rightarrow> string \<times> string" where
  "SplitNamespace s =
     (let i = strings_Index s CHR ''.''
      in if i > 0 then (take (nat i) s, drop (nat i + 1) s) else (s, ''''))"

definition C :: "('c, 's) Database \<Rightarrow> string \<Rightarrow> ('c, 's) Collection" where
  "C db nm = \<lparr>Conn = DbConn db, Namespace = DbName db @ ''.'' @ nm,
             LastErrorCmd = DbLastErrorCmd db\<rparr>"

definition Collection_Name :: "('c, 's) Collection \<Rightarrow> string" where
  "Collection_Name c = snd (SplitNamespace (Namespace c))"

definition Db :: "('c, 's) Collection \<Rightarrow> ('c, 's) Database" where
  "Db c = \<lparr>DbConn = Conn c, DbName = fst (SplitNamespace (Namespace c)),
           DbLastErrorCmd = LastErrorCmd c\<rparr>"

text \<open>
  \<open>LastError\<close> returns the pointer to the \<open>MongoError\<close> part of the reply struct and the
  error; the deferred \<open>cursor.Close()\<close> runs last and its result is dropped.
\<close>

definition LastError ::
    "('c, 's) Database \<Rightarrow> iface \<Rightarrow> 's \<Rightarrow> (MongoError \<times> error option) \<times> 's" where
  "LastError db cmd s =
     (let cmd = (if cmd = None then DefaultLastErrorCmd else cmd);
          r = lastErrorReply_zero
      in case Conn_Find (DbConn db) (DbName db @ ''.$cmd'') cmd runFindOptions s of
           (Inl err, s1) \<Rightarrow> ((reply_MongoError r, Some (ConnError err)), s1)
         | (Inr cursor, s1) \<Rightarrow>
             (let ((r, nerr), s2) = Cursor_Next (DbConn db) cursor r s1;
                  result =
                    (case nerr of
                       Some err \<Rightarrow> (reply_MongoError r, Some (ConnError err))
                     | None \<Rightarrow>
                         (case CommandResponse_Error (reply_CommandResponse r) of
                            Some err \<Rightarrow> (reply_MongoError r, Some err)
                          | None \<Rightarrow>
                              if Err (reply_MongoError r) \<noteq> ''''
                              then (reply_MongoError r, Some (WriteError (reply_MongoError r)))
                              else (reply_MongoError r, None)));
                  (cerr, s3) = Cursor_Close (DbConn db) cursor s2
              in (result, s3)))"

text \<open>\<open>checkError\<close>: the first component is the \<open>*MongoError\<close>, \<open>None\<close> for \<open>nil\<close>.\<close>

definition checkError ::
    "('c, 's) Collection \<Rightarrow> error option \<Rightarrow> 's \<Rightarrow> (MongoError option \<times> error option) \<times> 's" where
  "checkError c err s =
     (if err \<noteq> None then ((None, err), s)
      else if LastErrorCmd c = None then ((None, None), s)
      else (let ((merr, err'), s') = LastError (Db c) (LastErrorCmd c) s
            in ((Some merr, err'), s')))"

definition Insert :: "('c, 's) Collection \<Rightarrow> document list \<Rightarrow> 's \<Rightarrow> error option \<times> 's" where
  "Insert c documents s =
     (let (e, s1) = Conn_Insert (Conn c) (Namespace c) None documents s;
          ((merr, err), s2) = checkError c (map_option ConnError e) s1
      in (err, s2))"

definition Update :: "('c, 's) Collection \<Rightarrow> iface \<Rightarrow> iface \<Rightarrow> 's \<Rightarrow> error option \<times> 's" where
  "Update c selector update s =
     (let (e, s1) = Conn_Update (Conn c) (Namespace c) selector update None s;
          ((merr, err), s2) = checkError c (map_option ConnError e) s1;
          err = (case merr of
                   Some m \<Rightarrow> if err = None \<and> \<not> Updated m then Some ErrNotFound else err
                 | None \<Rightarrow> err)
      in (err, s2))"

definition UpdateAll :: "('c, 's) Collection \<Rightarrow> iface \<Rightarrow> iface \<Rightarrow> 's \<Rightarrow> error option \<times> 's" where
  "UpdateAll c selector update s =
     (let (e, s1) = Conn_Update (Conn c) (Namespace c) selector update (Some updateAllOptions) s;
          ((merr, err), s2) = checkError c (map_option ConnError e) s1;
          err = (case merr of
                   Some m \<Rightarrow> if err = None \<and> \<not> Updated m then Some ErrNotFound else err
                 | None \<Rightarrow> err)
      in (err, s2))"

definition Upsert_doc :: "('c, 's) Collection \<Rightarrow> iface \<Rightarrow> iface \<Rightarrow> 's \<Rightarrow> error option \<times> 's" where
  "Upsert_doc c selector update s =
     (let (e, s1) = Conn_Update (Conn c) (Namespace c) selector update (Some upsertOptions) s;
          ((merr, err), s2) = checkError c (map_option ConnError e) s1
      in (err, s2))"

definition RemoveFirst :: "('c, 's) Collection \<Rightarrow> iface \<Rightarrow> 's \<Rightarrow> error option \<times> 's" where
  "RemoveFirst c selector s =
     (let (e, s1) = Conn_Remove (Conn c) (Namespace c) selector (Some removeFirstOptions) s;
          ((merr, err), s2) = checkError c (map_option ConnError e) s1
      in (err, s2))"

definition Remove :: "('c, 's) Collection \<Rightarrow> iface \<Rightarrow> 's \<Rightarrow> error option \<times> 's" where
  "Remove c selector s =
     (let (e, s1) = Conn_Remove (Conn c) (Namespace c) selector None s;
          ((merr, err), s2) = checkError c (map_option ConnError e) s1
      in (err, s2))"

text \<open>\<open>strconv.Itoa\<close>: the decimal digits, with a minus sign for a negative number.\<close>

definition digit :: "nat \<Rightarrow> char" where
  "digit d = ''0123456789'' ! d"

fun nat_digits :: "nat \<Rightarrow> string" where
  "nat_digits n =
     (if n < 10 then [digit n]
      else nat_digits (n div 10) @ [digit (n mod 10)])"

definition Itoa :: "int \<Rightarrow> string" where
  "Itoa v = (if v < 0 then ''-'' @ nat_digits (nat (- v)) else nat_digits (nat v))"

text \<open>
  The type switch of \<open>IndexName\<close> on a direction: an \<open>int\<close> is written in decimal, a
  \<open>string\<close> as it is, and there is no string for any other value.
\<close>

fun direction :: "iface \<Rightarrow> string option" where
  "direction (Some (TInt, VInt v)) = Some (Itoa v)"
| "direction (Some (TString, VString v)) = Some v"
| "direction v = None"

fun IndexName_loop :: "D \<Rightarrow> nat \<Rightarrow> string \<Rightarrow> fault + string" where
  "IndexName_loop [] i buf = Inr buf"
| "IndexName_loop ((key, val) # keys) i buf =
     (let buf = (if i \<noteq> 0 then buf @ ''_'' else buf);
          buf = buf @ key;
          buf = buf @ ''_''
      in case direction val of
           Some v \<Rightarrow> IndexName_loop keys (i + 1) (buf @ v)
         | None \<Rightarrow> Inl Panicked)"

definition IndexName :: "D \<Rightarrow> fault + string" where
  "IndexName keys = IndexName_loop keys 0 ''''"

definition CreateIndex ::
    "('c, 's) Collection \<Rightarrow> D \<Rightarrow> IndexOptions option \<Rightarrow> 's \<Rightarrow> fault + (error option \<times> 's)" where
  "CreateIndex c keys options s =
     (let index = \<lparr>Keys = keys, IndexNamespace = Namespace c, Options = IndexOptions_zero\<rparr>;
          index = (case options of
                     Some opts \<Rightarrow> index\<lparr>Options := opts\<rparr>
                   | None \<Rightarrow> index)
      in case (if Name (Options index) = ''''
               then (case IndexName keys of
                       Inl p \<Rightarrow> Inl p
                     | Inr nm \<Rightarrow> Inr (index\<lparr>Options := (Options index)\<lparr>Name := nm\<rparr>\<rparr>))
               else Inr index) of
           Inl p \<Rightarrow> Inl p
         | Inr index \<Rightarrow>
             (let c = (if LastErrorCmd c = None then c\<lparr>LastErrorCmd := DefaultLastErrorCmd\<rparr>
                       else c)
              in Inr (Insert (C (Db c) ''system.indexes'') [IndexDoc index] s)))"

text \<open>
  The specification's reading of the default index name: the keys and their
  directions, all joined by underscores.
\<close>

fun underscore_joined :: "string list \<Rightarrow> string" where
  "underscore_joined [] = ''''"
| "underscore_joined [x] = x"
| "underscore_joined (x # y # ys) = x @ ''_'' @ underscore_joined (y # ys)"

definition key_words :: "D \<Rightarrow> string list" where
  "key_words keys = concat (map (\<lambda>(k, v). [k, the (direction v)]) keys)"

text \<open>
  A connection that records the calls made on it and answers from a fixed script:
  every mutation succeeds, \<open>Find\<close> gives the only cursor, and \<open>Next\<close> stores the given
  reply. It is used to run the operations on concrete inputs.
\<close>

datatype call =
    CallUpdate string iface iface "UpdateOptions option"
  | CallInsert string "document list"
  | CallRemove string iface "RemoveOptions option"
  | CallFind string iface FindOptions
  | CallNext
  | CallClose

definition recording_conn :: "lastErrorReply \<Rightarrow> (unit, call list) Conn" where
  "recording_conn reply =
     \<lparr>Conn_Update = (\<lambda>ns sel upd opts s. (None, s @ [CallUpdate ns sel upd opts])),
      Conn_Insert = (\<lambda>ns opts docs s. (None, s @ [CallInsert ns docs])),
      Conn_Remove = (\<lambda>ns sel opts s. (None, s @ [CallRemove ns sel opts])),
      Conn_Find = (\<lambda>ns q opts s. (Inr (), s @ [CallFind ns q opts])),
      Cursor_Next = (\<lambda>cur r s. ((reply, None), s @ [CallNext])),
      Cursor_Close = (\<lambda>cur s. (None, s @ [CallClose]))\<rparr>"

definition reply_not_updated :: lastErrorReply where
  "reply_not_updated =
     \<lparr>reply_CommandResponse = \<lparr>Ok = True, Errmsg = ''''\<rparr>,
      reply_MongoError = \<lparr>Err = '''', N = 0, Code = 0, Updated = False, UpsertedId = None\<rparr>\<rparr>"

definition example_collection :: "iface \<Rightarrow> (unit, call list) Collection" where
  "example_collection cmd =
     \<lparr>Conn = recording_conn reply_not_updated, Namespace = ''test.things'',
      LastErrorCmd = cmd\<rparr>"

text \<open>
  The same connection with the answer of \<open>Update\<close> given too, and replies of the server: a
  document was updated, the command failed, the write failed.
\<close>

definition answering_conn :: "string option \<Rightarrow> lastErrorReply \<Rightarrow> (unit, call list) Conn" where
  "answering_conn uerr reply =
     (recording_conn reply)
       \<lparr>Conn_Update := (\<lambda>ns sel upd opts s. (uerr, s @ [CallUpdate ns sel upd opts]))\<rparr>"

definition answering_collection ::
    "string option \<Rightarrow> lastErrorReply \<Rightarrow> iface \<Rightarrow> (unit, call list) Collection" where
  "answering_collection uerr reply cmd =
     \<lparr>Conn = answering_conn uerr reply, Namespace = ''test.things'', LastErrorCmd = cmd\<rparr>"

definition reply_updated :: lastErrorReply where
  "reply_updated =
     \<lparr>reply_CommandResponse = \<lparr>Ok = True, Errmsg = ''''\<rparr>,
      reply_MongoError = \<lparr>Err = '''', N = 1, Code = 0, Updated = True, UpsertedId = None\<rparr>\<rparr>"

definition reply_not_ok :: lastErrorReply where
  "reply_not_ok =
     \<lparr>reply_CommandResponse = \<lparr>Ok = False, Errmsg = ''no such cmd''\<rparr>,
      reply_MongoError = \<lparr>Err = '''', N = 0, Code = 0, Updated = False, UpsertedId = None\<rparr>\<rparr>"

definition reply_write_failed :: lastErrorReply where
  "reply_write_failed =
     \<lparr>reply_CommandResponse = \<lparr>Ok = True, Errmsg = ''''\<rparr>,
      reply_MongoError = \<lparr>Err = ''duplicate key'', N = 0, Code = 11000, Updated = False,
                          UpsertedId = None\<rparr>\<rparr>"
section \<open>The decoder: reading the input\<close>

text \<open>
  Modelled from the spec: the package \<open>wire\<close>, whose \<open>Uint32\<close> and \<open>Uint64\<close> the decoder
  calls, is not among the sources; the specification fixes BSON as little-endian
  throughout. \<open>le_nat\<close> reads a byte sequence as a little-endian number.
\<close>

fun le_nat :: "byte list \<Rightarrow> nat" where
  "le_nat [] = 0"
| "le_nat (b # bs) = unat b + 256 * le_nat bs"

definition wire_Uint32 :: "byte list \<Rightarrow> 32 word" where
  "wire_Uint32 p = of_nat (le_nat (take 4 p))"

definition wire_Uint64 :: "byte list \<Rightarrow> 64 word" where
  "wire_Uint64 p = of_nat (le_nat (take 8 p))"

text \<open>The conversion \<open>string(p)\<close> of a byte slice, and its inverse.\<close>

definition string_of_bytes :: "byte list \<Rightarrow> string" where
  "string_of_bytes p = map (\<lambda>b. char_of (unat b)) p"

definition bytes_of_string :: "string \<Rightarrow> byte list" where
  "bytes_of_string s = map (\<lambda>c. of_nat (of_char c)) s"

text \<open>The kind table.\<close>


definition kindFloat :: int where "kindFloat = 0x1"
definition kindString :: int where "kindString = 0x2"
definition kindDocument :: int where "kindDocument = 0x3"
definition kindArray :: int where "kindArray = 0x4"
definition kindBinary :: int where "kindBinary = 0x5"
definition kindObjectId :: int where "kindObjectId = 0x7"
definition kindBool :: int where "kindBool = 0x8"
definition kindDateTime :: int where "kindDateTime = 0x9"
definition kindNull :: int where "kindNull = 0xA"
definition kindRegexp :: int where "kindRegexp = 0xB"
definition kindCode :: int where "kindCode = 0xD"
definition kindSymbol :: int where "kindSymbol = 0xE"
definition kindCodeWithScope :: int where "kindCodeWithScope = 0xF"
definition kindInt32 :: int where "kindInt32 = 0x10"
definition kindTimestamp :: int where "kindTimestamp = 0x11"
definition kindInt64 :: int where "kindInt64 = 0x12"
definition kindMinValue :: int where "kindMinValue = 0xff"
definition kindMaxValue :: int where "kindMaxValue = 0x7f"

text \<open>
  The state of the decoder. \<open>data\<close> is the input up to its length; \<open>spare\<close> is what the
  backing array of the input slice holds between its length and its capacity, which a
  slice expression on \<open>data\<close> can reach. \<open>offset\<close> is a Go \<open>int\<close>, taken as 64 bits wide:
  it moves by at most \<open>2^32\<close> from a position inside the input, so its arithmetic does
  not wrap and is that of the integers.
\<close>

record decodeState =
  data :: "byte list"
  spare :: "byte list"
  offset :: int
  savedError :: "error option"

type_synonym 'a decoding = "fault + ('a \<times> decodeState)"

definition saveError :: "error \<Rightarrow> decodeState \<Rightarrow> decodeState" where
  "saveError err d = (if savedError d = None then d\<lparr>savedError := Some err\<rparr> else d)"

text \<open>
  An index expression below zero and a slice expression with a bound below zero or
  with \<open>low > high\<close> are runtime panics.
\<close>

definition scanByte :: "decodeState \<Rightarrow> byte decoding" where
  "scanByte d =
     (if offset d \<ge> int (length (data d)) then abort ErrEOD
      else if offset d < 0 then Inl Panicked
      else Inr (data d ! nat (offset d), d\<lparr>offset := offset d + 1\<rparr>))"

definition scanSlice :: "int \<Rightarrow> decodeState \<Rightarrow> (byte list) decoding" where
  "scanSlice n d =
     (let off = offset d + n
      in if off > int (length (data d)) then abort ErrEOD
         else if offset d < 0 \<or> off < offset d then Inl Panicked
         else Inr (take (nat n) (drop (nat (offset d)) (data d)), d\<lparr>offset := off\<rparr>))"

definition beginDoc :: "decodeState \<Rightarrow> int decoding" where
  "beginDoc d =
     (let off = offset d
      in case scanSlice 4 d of
           Inl f \<Rightarrow> Inl f
         | Inr (p, d1) \<Rightarrow> Inr (off + uint (wire_Uint32 p), d1))"

definition endDoc :: "int \<Rightarrow> decodeState \<Rightarrow> unit decoding" where
  "endDoc off d = (if offset d \<noteq> off then abort ErrDocLength else Inr ((), d))"

text \<open>\<open>scanKindName\<close> gives the kind and the bytes of the name, \<open>nil\<close> for the kind 0.\<close>

definition scanKindName :: "decodeState \<Rightarrow> (int \<times> byte list) decoding" where
  "scanKindName d =
     (case scanByte d of
        Inl f \<Rightarrow> Inl f
      | Inr (b, d1) \<Rightarrow>
          (let kind = uint b
           in if kind = 0 then Inr ((0, []), d1)
              else (let rest = drop (nat (offset d1)) (data d1);
                        name = takeWhile (\<lambda>b. b \<noteq> 0) rest
                    in if length name < length rest
                       then Inr ((kind, name), d1\<lparr>offset := offset d1 + int (length name) + 1\<rparr>)
                       else abort ErrEOD)))"

text \<open>A \<open>float64\<close> is kept as the bits that \<open>math.Float64frombits\<close> receives.\<close>

definition scanFloat :: "decodeState \<Rightarrow> (64 word) decoding" where
  "scanFloat d =
     (case scanSlice 8 d of Inl f \<Rightarrow> Inl f | Inr (p, d1) \<Rightarrow> Inr (wire_Uint64 p, d1))"

definition scanString :: "decodeState \<Rightarrow> string decoding" where
  "scanString d =
     (case scanSlice 4 d of
        Inl f \<Rightarrow> Inl f
      | Inr (p, d1) \<Rightarrow>
          (let n = uint (wire_Uint32 p)
           in case scanSlice (n - 1) d1 of
                Inl f \<Rightarrow> Inl f
              | Inr (s, d2) \<Rightarrow> Inr (string_of_bytes s, d2\<lparr>offset := offset d2 + 1\<rparr>)))"

definition scanBinary :: "decodeState \<Rightarrow> (byte list \<times> int) decoding" where
  "scanBinary d =
     (case scanSlice 4 d of
        Inl f \<Rightarrow> Inl f
      | Inr (p, d1) \<Rightarrow>
          (let n = uint (wire_Uint32 p)
           in case scanByte d1 of
                Inl f \<Rightarrow> Inl f
              | Inr (b, d2) \<Rightarrow>
                  (case scanSlice n d2 of
                     Inl f \<Rightarrow> Inl f
                   | Inr (q, d3) \<Rightarrow> Inr ((q, uint b), d3))))"

definition scanBool :: "decodeState \<Rightarrow> bool decoding" where
  "scanBool d =
     (case scanByte d of Inl f \<Rightarrow> Inl f | Inr (b, d1) \<Rightarrow> Inr (if b = 0 then False else True, d1))"

definition scanInt32 :: "decodeState \<Rightarrow> (32 word) decoding" where
  "scanInt32 d =
     (case scanSlice 4 d of Inl f \<Rightarrow> Inl f | Inr (p, d1) \<Rightarrow> Inr (wire_Uint32 p, d1))"

definition scanInt64 :: "decodeState \<Rightarrow> (64 word) decoding" where
  "scanInt64 d =
     (case scanSlice 8 d of Inl f \<Rightarrow> Inl f | Inr (p, d1) \<Rightarrow> Inr (wire_Uint64 p, d1))"

text \<open>\<open>skipValue\<close> moves the offset without looking at the bytes it passes.\<close>

definition skipValue :: "int \<Rightarrow> decodeState \<Rightarrow> unit decoding" where
  "skipValue kind d =
     (if kind = kindString \<or> kind = kindSymbol then
        (case scanInt32 d of
           Inl f \<Rightarrow> Inl f
         | Inr (n, d1) \<Rightarrow> Inr ((), d1\<lparr>offset := offset d1 + sint n\<rparr>))
      else if kind = kindDocument \<or> kind = kindArray then
        (case scanInt32 d of
           Inl f \<Rightarrow> Inl f
         | Inr (n, d1) \<Rightarrow> Inr ((), d1\<lparr>offset := offset d1 + (sint n - 4)\<rparr>))
      else if kind = kindBinary then
        (case scanInt32 d of
           Inl f \<Rightarrow> Inl f
         | Inr (n, d1) \<Rightarrow> Inr ((), d1\<lparr>offset := offset d1 + (sint n + 1)\<rparr>))
      else if kind = kindObjectId then Inr ((), d\<lparr>offset := offset d + 12\<rparr>)
      else if kind = kindBool then Inr ((), d\<lparr>offset := offset d + 1\<rparr>)
      else if kind = kindDateTime \<or> kind = kindTimestamp \<or> kind = kindInt64
              \<or> kind = kindFloat then Inr ((), d\<lparr>offset := offset d + 8\<rparr>)
      else if kind = kindInt32 then Inr ((), d\<lparr>offset := offset d + 4\<rparr>)
      else if kind = kindMinValue \<or> kind = kindMaxValue \<or> kind = kindNull
        then Inr ((), d\<lparr>offset := offset d + 0\<rparr>)
      else abort (DecodeTypeError kind))"

definition saveErrorAndSkip :: "int \<Rightarrow> gtype \<Rightarrow> decodeState \<Rightarrow> unit decoding" where
  "saveErrorAndSkip kind t d =
     (case skipValue kind d of
        Inl f \<Rightarrow> Inl f
      | Inr (u, d1) \<Rightarrow>
          Inr ((), if savedError d1 = None
                   then d1\<lparr>savedError := Some (DecodeConvertError kind t)\<rparr> else d1))"

section \<open>The decoder: the generic target\<close>

text \<open>The named types of the package that the decoder knows.\<close>

definition BSONData_t :: gtype where
  "BSONData_t = TNamed ''mongo.BSONData''
     (TStruct [Field ''Kind'' '''' False '''' TInt, Field ''Data'' '''' False '''' (TSlice TUint8)])"

definition DateTime_t :: gtype where "DateTime_t = TNamed ''mongo.DateTime'' TInt64"
definition Timestamp_t :: gtype where "Timestamp_t = TNamed ''mongo.Timestamp'' TInt64"
definition MinMax_t :: gtype where "MinMax_t = TNamed ''mongo.MinMax'' TInt"
definition ObjectId_t :: gtype where "ObjectId_t = TNamed ''mongo.ObjectId'' TString"
definition Symbol_t :: gtype where "Symbol_t = TNamed ''mongo.Symbol'' TString"
definition M_t :: gtype where "M_t = TNamed ''mongo.M'' (TMap TString (TInterface []))"

abbreviation MaxValue :: iface where "MaxValue \<equiv> Some (MinMax_t, VInt 1)"
abbreviation MinValue :: iface where "MinValue \<equiv> Some (MinMax_t, VInt (- 1))"

text \<open>The assignment \<open>m[k] = v\<close> on a map.\<close>

fun mapassign :: "string \<Rightarrow> gval \<Rightarrow> (string \<times> gval) list \<Rightarrow> (string \<times> gval) list" where
  "mapassign k v [] = [(k, v)]"
| "mapassign k v ((k', v') # m) =
     (if k' = k then (k, v) # m else (k', v') # mapassign k v m)"

text \<open>
  \<open>decodeValueInterface\<close> returns an \<open>interface{}\<close>. Its two loops are
  \<open>interfaceDocument\<close>, with the map \<open>m\<close> built so far, and \<open>interfaceArray\<close>, with the
  slice \<open>a\<close>, which is \<open>nil\<close> until the first \<open>append\<close>; the capacity that \<open>append\<close>
  leaves beyond the length is not part of the result here. The first argument is the
  fuel: every call and every turn of a loop takes one unit.
\<close>

fun decodeValueInterface :: "nat \<Rightarrow> int \<Rightarrow> decodeState \<Rightarrow> iface decoding"
and interfaceDocument ::
      "nat \<Rightarrow> (string \<times> gval) list \<Rightarrow> decodeState \<Rightarrow> ((string \<times> gval) list) decoding"
and interfaceArray ::
      "nat \<Rightarrow> (gval list) option \<Rightarrow> decodeState \<Rightarrow> ((gval list) option) decoding"
where
  "decodeValueInterface 0 kind d = Inl OutOfFuel"
| "decodeValueInterface (Suc fuel) kind d =
     (if kind = kindFloat then
        (case scanFloat d of Inl f \<Rightarrow> Inl f
         | Inr (x, d1) \<Rightarrow> Inr (Some (TFloat64, VFloat x), d1))
      else if kind = kindString then
        (case scanString d of Inl f \<Rightarrow> Inl f
         | Inr (s, d1) \<Rightarrow> Inr (Some (TString, VString s), d1))
      else if kind = kindDocument then
        (case beginDoc d of Inl f \<Rightarrow> Inl f
         | Inr (off, d1) \<Rightarrow>
             (case interfaceDocument fuel [] d1 of Inl f \<Rightarrow> Inl f
              | Inr (m, d2) \<Rightarrow>
                  (case endDoc off d2 of Inl f \<Rightarrow> Inl f
                   | Inr (u, d3) \<Rightarrow>
                       Inr (Some (TMap TString (TInterface []), VMap (Some m)), d3))))
      else if kind = kindArray then
        (case beginDoc d of Inl f \<Rightarrow> Inl f
         | Inr (off, d1) \<Rightarrow>
             (case interfaceArray fuel None d1 of Inl f \<Rightarrow> Inl f
              | Inr (a, d2) \<Rightarrow>
                  (case endDoc off d2 of Inl f \<Rightarrow> Inl f
                   | Inr (u, d3) \<Rightarrow>
                       Inr (Some (TSlice (TInterface []),
                                  VSlice (map_option (\<lambda>xs. (xs, [])) a)), d3))))
      else if kind = kindBinary then
        (case scanBinary d of Inl f \<Rightarrow> Inl f
         | Inr ((p, subtype), d1) \<Rightarrow>
             Inr (Some (TSlice TUint8, VSlice (Some (map (\<lambda>b. VUint (uint b)) p, []))), d1))
      else if kind = kindObjectId then
        (case scanSlice 12 d of Inl f \<Rightarrow> Inl f
         | Inr (p, d1) \<Rightarrow> Inr (Some (ObjectId_t, VString (string_of_bytes p)), d1))
      else if kind = kindBool then
        (case scanBool d of Inl f \<Rightarrow> Inl f
         | Inr (b, d1) \<Rightarrow> Inr (Some (TBool, VBool b), d1))
      else if kind = kindDateTime then
        (case scanInt64 d of Inl f \<Rightarrow> Inl f
         | Inr (x, d1) \<Rightarrow> Inr (Some (DateTime_t, VInt (sint x)), d1))
      else if kind = kindNull then Inr (None, d)
      else if kind = kindSymbol then
        (case scanString d of Inl f \<Rightarrow> Inl f
         | Inr (s, d1) \<Rightarrow> Inr (Some (Symbol_t, VString s), d1))
      else if kind = kindInt32 then
        (case scanInt32 d of Inl f \<Rightarrow> Inl f
         | Inr (x, d1) \<Rightarrow> Inr (Some (TInt, VInt (sint x)), d1))
      else if kind = kindTimestamp then
        (case scanInt64 d of Inl f \<Rightarrow> Inl f
         | Inr (x, d1) \<Rightarrow> Inr (Some (Timestamp_t, VInt (sint x)), d1))
      else if kind = kindInt64 then
        (case scanInt64 d of Inl f \<Rightarrow> Inl f
         | Inr (x, d1) \<Rightarrow> Inr (Some (TInt64, VInt (sint x)), d1))
      else if kind = kindMinValue then Inr (MinValue, d)
      else if kind = kindMaxValue then Inr (MaxValue, d)
      else abort (DecodeTypeError kind))"
| "interfaceDocument 0 m d = Inl OutOfFuel"
| "interfaceDocument (Suc fuel) m d =
     (case scanKindName d of Inl f \<Rightarrow> Inl f
      | Inr ((kind, name), d1) \<Rightarrow>
          if kind = 0 then Inr (m, d1)
          else (case decodeValueInterface fuel kind d1 of Inl f \<Rightarrow> Inl f
                | Inr (x, d2) \<Rightarrow>
                    interfaceDocument fuel (mapassign (string_of_bytes name) (VIface x) m) d2))"
| "interfaceArray 0 a d = Inl OutOfFuel"
| "interfaceArray (Suc fuel) a d =
     (case scanKindName d of Inl f \<Rightarrow> Inl f
      | Inr ((kind, name), d1) \<Rightarrow>
          if kind = 0 then Inr (a, d1)
          else (case decodeValueInterface fuel kind d1 of Inl f \<Rightarrow> Inl f
                | Inr (x, d2) \<Rightarrow>
                    interfaceArray fuel
                      (Some ((case a of None \<Rightarrow> [] | Some xs \<Rightarrow> xs) @ [VIface x])) d2))"

text \<open>
  The loop of \<open>decodeMapStringInterface\<close> over the elements of the document; it passes
  a null element by and stores every other one in \<open>m\<close>.
\<close>

fun mapStringInterfaceLoop ::
      "nat \<Rightarrow> (string \<times> gval) list \<Rightarrow> decodeState \<Rightarrow> ((string \<times> gval) list) decoding" where
  "mapStringInterfaceLoop 0 m d = Inl OutOfFuel"
| "mapStringInterfaceLoop (Suc fuel) m d =
     (case scanKindName d of Inl f \<Rightarrow> Inl f
      | Inr ((kind, name), d1) \<Rightarrow>
          if kind = 0 then Inr (m, d1)
          else if kind = kindNull then mapStringInterfaceLoop fuel m d1
          else (case decodeValueInterface fuel kind d1 of Inl f \<Rightarrow> Inl f
                | Inr (x, d2) \<Rightarrow>
                    mapStringInterfaceLoop fuel
                      (mapassign (string_of_bytes name) (VIface x) m) d2))"

text \<open>
  The canonical host type of each element kind, as the specification lists them; a null
  element and a kind that is not decoded have none.
\<close>

definition canonical_type :: "int \<Rightarrow> gtype option" where
  "canonical_type kind =
     (if kind = kindFloat then Some TFloat64
      else if kind = kindString then Some TString
      else if kind = kindDocument then Some (TMap TString (TInterface []))
      else if kind = kindArray then Some (TSlice (TInterface []))
      else if kind = kindBinary then Some (TSlice TUint8)
      else if kind = kindObjectId then Some ObjectId_t
      else if kind = kindBool then Some TBool
      else if kind = kindDateTime then Some DateTime_t
      else if kind = kindSymbol then Some Symbol_t
      else if kind = kindInt32 then Some TInt
      else if kind = kindTimestamp then Some Timestamp_t
      else if kind = kindInt64 then Some TInt64
      else if kind = kindMinValue \<or> kind = kindMaxValue then Some MinMax_t
      else None)"
section \<open>The decoder: typed targets\<close>

text \<open>
  The conversions between floating-point numbers and integers, the rounding of a
  \<open>float64\<close> to \<open>float32\<close> and the overflow test of \<open>reflect\<close> for \<open>float32\<close> are those of
  the platform. They are parameters of the decoder, on the bits of the numbers.
\<close>

record floatOps =
  float64_of_int64 :: "64 word \<Rightarrow> 64 word"
  int64_of_float64 :: "64 word \<Rightarrow> 64 word"
  uint64_of_float64 :: "64 word \<Rightarrow> 64 word"
  float32_of_float64 :: "64 word \<Rightarrow> 64 word"
  overflowFloat32 :: "64 word \<Rightarrow> bool"

text \<open>\<open>f != 0\<close> on the bits of a \<open>float64\<close>: false for the two zeros only.\<close>

definition float64_nonzero :: "64 word \<Rightarrow> bool" where
  "float64_nonzero f \<longleftrightarrow> f AND 0x7FFFFFFFFFFFFFFF \<noteq> 0"

text \<open>The width in bits of a numeric type; \<open>int\<close> and \<open>uint\<close> are 64 bits wide.\<close>

fun Bits_of :: "Kind \<Rightarrow> nat" where
  "Bits_of reflect_Int8 = 8"
| "Bits_of reflect_Int16 = 16"
| "Bits_of reflect_Int32 = 32"
| "Bits_of reflect_Int64 = 64"
| "Bits_of reflect_Int = 64"
| "Bits_of reflect_Uint8 = 8"
| "Bits_of reflect_Uint16 = 16"
| "Bits_of reflect_Uint32 = 32"
| "Bits_of reflect_Uint64 = 64"
| "Bits_of reflect_Uint = 64"
| "Bits_of reflect_Float32 = 32"
| "Bits_of reflect_Float64 = 64"
| "Bits_of k = 0"

text \<open>
  \<open>OverflowInt\<close>, \<open>OverflowUint\<close> and \<open>OverflowFloat\<close> of \<open>reflect.Value\<close>: whether the
  \<open>int64\<close>, \<open>uint64\<close> or \<open>float64\<close> cannot be represented in the type of the value.
\<close>

definition OverflowInt :: "gtype \<Rightarrow> 64 word \<Rightarrow> bool" where
  "OverflowInt t x \<longleftrightarrow>
     sint x < - (2 ^ (Bits_of (Kind_of t) - 1)) \<or> 2 ^ (Bits_of (Kind_of t) - 1) \<le> sint x"

definition OverflowUint :: "gtype \<Rightarrow> 64 word \<Rightarrow> bool" where
  "OverflowUint t x \<longleftrightarrow> 2 ^ Bits_of (Kind_of t) \<le> uint x"

definition OverflowFloat :: "floatOps \<Rightarrow> gtype \<Rightarrow> 64 word \<Rightarrow> bool" where
  "OverflowFloat fp t x \<longleftrightarrow> Kind_of t = reflect_Float32 \<and> overflowFloat32 fp x"

text \<open>The two tables of decoders, by type and by kind.\<close>

datatype decoderFunc =
    DecodeBool | DecodeFloat | DecodeInt | DecodeUint | DecodeMap | DecodeString
  | DecodeStruct | DecodeSlice | DecodeArray
  | DecodeBSONData | DecodeDateTime | DecodeMinMax | DecodeObjectId | DecodeTimestamp
  | DecodeByteSlice | DecodeMapStringInterface | DecodeInterface

fun kindDecoder :: "Kind \<Rightarrow> decoderFunc option" where
  "kindDecoder reflect_Bool = Some DecodeBool"
| "kindDecoder reflect_Float32 = Some DecodeFloat"
| "kindDecoder reflect_Float64 = Some DecodeFloat"
| "kindDecoder reflect_Int8 = Some DecodeInt"
| "kindDecoder reflect_Int16 = Some DecodeInt"
| "kindDecoder reflect_Int32 = Some DecodeInt"
| "kindDecoder reflect_Int64 = Some DecodeInt"
| "kindDecoder reflect_Int = Some DecodeInt"
| "kindDecoder reflect_Uint8 = Some DecodeUint"
| "kindDecoder reflect_Uint16 = Some DecodeUint"
| "kindDecoder reflect_Uint32 = Some DecodeUint"
| "kindDecoder reflect_Uint64 = Some DecodeUint"
| "kindDecoder reflect_Uint = Some DecodeUint"
| "kindDecoder reflect_Map = Some DecodeMap"
| "kindDecoder reflect_String = Some DecodeString"
| "kindDecoder reflect_Struct = Some DecodeStruct"
| "kindDecoder reflect_Slice = Some DecodeSlice"
| "kindDecoder reflect_Array = Some DecodeArray"
| "kindDecoder k = None"

definition typeDecoder :: "gtype \<Rightarrow> decoderFunc option" where
  "typeDecoder t =
     (if t = BSONData_t then Some DecodeBSONData
      else if t = DateTime_t then Some DecodeDateTime
      else if t = MinMax_t then Some DecodeMinMax
      else if t = ObjectId_t then Some DecodeObjectId
      else if t = Symbol_t then Some DecodeString
      else if t = Timestamp_t then Some DecodeTimestamp
      else if t = TSlice TUint8 then Some DecodeByteSlice
      else if t = TMap TString (TInterface []) then Some DecodeMapStringInterface
      else if t = M_t then Some DecodeMapStringInterface
      else if t = TInterface [] then Some DecodeInterface
      else None)"

text \<open>The lookup of \<open>decodeValue\<close>: first by type, then by kind.\<close>

definition decoderFor :: "gtype \<Rightarrow> decoderFunc option" where
  "decoderFor t =
     (case typeDecoder t of
        Some dec \<Rightarrow> Some dec
      | None \<Rightarrow> kindDecoder (Kind_of t))"

text \<open>
  Every decoder takes the kind, the type and the value of the slot and whether the slot
  can be set, and returns the value of the slot after the call. A \<open>Set\<close> on a value
  that cannot be set is a panic of \<open>reflect\<close>. A value that does not have the shape of its
  type does not occur in Go; the embedding answers \<open>Panicked\<close> there.
\<close>

definition skipped :: "int \<Rightarrow> gtype \<Rightarrow> gval \<Rightarrow> decodeState \<Rightarrow> gval decoding" where
  "skipped kind t v d =
     (case saveErrorAndSkip kind t d of Inl f \<Rightarrow> Inl f | Inr (u, d1) \<Rightarrow> Inr (v, d1))"

definition decodeFloat ::
    "floatOps \<Rightarrow> int \<Rightarrow> gtype \<Rightarrow> gval \<Rightarrow> bool \<Rightarrow> decodeState \<Rightarrow> gval decoding" where
  "decodeFloat fp kind t v addr d =
     (if kind = kindFloat \<or> kind = kindInt64 \<or> kind = kindInt32 then
        (case (if kind = kindFloat then scanFloat d
               else if kind = kindInt64 then
                 (case scanInt64 d of Inl f \<Rightarrow> Inl f
                  | Inr (x, d1) \<Rightarrow> Inr (float64_of_int64 fp x, d1))
               else
                 (case scanInt32 d of Inl f \<Rightarrow> Inl f
                  | Inr (x, d1) \<Rightarrow> Inr (float64_of_int64 fp (scast x), d1))) of
           Inl f \<Rightarrow> Inl f
         | Inr (f, d1) \<Rightarrow>
             if OverflowFloat fp t f then Inr (v, saveError (DecodeConvertError kind t) d1)
             else if \<not> addr then Inl Panicked
             else Inr (VFloat (if Kind_of t = reflect_Float32 then float32_of_float64 fp f
                               else f), d1))
      else skipped kind t v d)"

definition decodeInt ::
    "floatOps \<Rightarrow> int \<Rightarrow> gtype \<Rightarrow> gval \<Rightarrow> bool \<Rightarrow> decodeState \<Rightarrow> gval decoding" where
  "decodeInt fp kind t v addr d =
     (if kind = kindInt64 \<or> kind = kindTimestamp \<or> kind = kindDateTime
         \<or> kind = kindInt32 \<or> kind = kindFloat then
        (case (if kind = kindInt32 then
                 (case scanInt32 d of Inl f \<Rightarrow> Inl f
                  | Inr (x, d1) \<Rightarrow> Inr (scast x, d1))
               else if kind = kindFloat then
                 (case scanFloat d of Inl f \<Rightarrow> Inl f
                  | Inr (x, d1) \<Rightarrow> Inr (int64_of_float64 fp x, d1))
               else scanInt64 d) of
           Inl f \<Rightarrow> Inl f
         | Inr (n, d1) \<Rightarrow>
             if OverflowInt t n then Inr (v, saveError (DecodeConvertError kind t) d1)
             else if \<not> addr then Inl Panicked
             else Inr (VInt (sint n), d1))
      else skipped kind t v d)"

definition decodeUint ::
    "floatOps \<Rightarrow> int \<Rightarrow> gtype \<Rightarrow> gval \<Rightarrow> bool \<Rightarrow> decodeState \<Rightarrow> gval decoding" where
  "decodeUint fp kind t v addr d =
     (if kind = kindInt64 \<or> kind = kindTimestamp \<or> kind = kindDateTime
         \<or> kind = kindInt32 \<or> kind = kindFloat then
        (case (if kind = kindInt32 then
                 (case scanInt32 d of Inl f \<Rightarrow> Inl f
                  | Inr (x, d1) \<Rightarrow> Inr (scast x, d1))
               else if kind = kindFloat then
                 (case scanFloat d of Inl f \<Rightarrow> Inl f
                  | Inr (x, d1) \<Rightarrow> Inr (uint64_of_float64 fp x, d1))
               else scanInt64 d) of
           Inl f \<Rightarrow> Inl f
         | Inr (n, d1) \<Rightarrow>
             if OverflowUint t n then Inr (v, saveError (DecodeConvertError kind t) d1)
             else if \<not> addr then Inl Panicked
             else Inr (VUint (uint n), d1))
      else skipped kind t v d)"

definition decodeTimestamp ::
    "floatOps \<Rightarrow> int \<Rightarrow> gtype \<Rightarrow> gval \<Rightarrow> bool \<Rightarrow> decodeState \<Rightarrow> gval decoding" where
  "decodeTimestamp fp kind t v addr d =
     (if kind = kindInt64 \<or> kind = kindTimestamp then decodeInt fp kindInt64 t v addr d
      else skipped kind t v d)"

definition decodeDateTime ::
    "floatOps \<Rightarrow> int \<Rightarrow> gtype \<Rightarrow> gval \<Rightarrow> bool \<Rightarrow> decodeState \<Rightarrow> gval decoding" where
  "decodeDateTime fp kind t v addr d =
     (if kind = kindInt64 \<or> kind = kindDateTime then decodeInt fp kindInt64 t v addr d
      else skipped kind t v d)"

definition decodeString :: "int \<Rightarrow> gtype \<Rightarrow> gval \<Rightarrow> bool \<Rightarrow> decodeState \<Rightarrow> gval decoding" where
  "decodeString kind t v addr d =
     (if kind = kindString \<or> kind = kindSymbol \<or> kind = kindCode then
        (case scanString d of
           Inl f \<Rightarrow> Inl f
         | Inr (s, d1) \<Rightarrow> if \<not> addr then Inl Panicked else Inr (VString s, d1))
      else skipped kind t v d)"

definition decodeObjectId :: "int \<Rightarrow> gtype \<Rightarrow> gval \<Rightarrow> bool \<Rightarrow> decodeState \<Rightarrow> gval decoding" where
  "decodeObjectId kind t v addr d =
     (if kind = kindObjectId then
        (case scanSlice 12 d of
           Inl f \<Rightarrow> Inl f
         | Inr (p, d1) \<Rightarrow>
             if \<not> addr then Inl Panicked else Inr (VString (string_of_bytes p), d1))
      else skipped kind t v d)"

text \<open>
  \<open>decodeBSONData\<close> copies the bytes that \<open>skipValue\<close> passed. \<open>make\<close> panics on a
  negative length; the slice expression \<open>d.data[start:d.offset]\<close> is checked against the
  capacity of \<open>data\<close>, not its length.
\<close>

definition decodeBSONData :: "int \<Rightarrow> gtype \<Rightarrow> gval \<Rightarrow> bool \<Rightarrow> decodeState \<Rightarrow> gval decoding" where
  "decodeBSONData kind t v addr d =
     (let start = offset d
      in case skipValue kind d of
           Inl f \<Rightarrow> Inl f
         | Inr (u, d1) \<Rightarrow>
             if offset d1 - start < 0 then Inl Panicked
             else if start < 0 \<or> offset d1 > int (length (data d1)) + int (length (spare d1))
               then Inl Panicked
             else if \<not> addr then Inl Panicked
             else Inr (VStruct [VInt kind,
                         VSlice (Some (map (\<lambda>b. VUint (uint b))
                                         (take (nat (offset d1 - start))
                                            (drop (nat start) (data d1 @ spare d1))), []))],
                       d1))"

definition decodeByteSlice :: "int \<Rightarrow> gtype \<Rightarrow> gval \<Rightarrow> bool \<Rightarrow> decodeState \<Rightarrow> gval decoding" where
  "decodeByteSlice kind t v addr d =
     (if kind = kindBinary then
        (case scanBinary d of
           Inl f \<Rightarrow> Inl f
         | Inr ((p, subtype), d1) \<Rightarrow>
             (case v of
                VSlice sl \<Rightarrow>
                  if \<not> addr then Inl Panicked
                  else (case sl of
                          None \<Rightarrow> Inr (VSlice (Some (map (\<lambda>b. VUint (uint b)) p, [])), d1)
                        | Some (xs, sp) \<Rightarrow>
                            if length xs + length sp < length p
                            then Inr (VSlice (Some (map (\<lambda>b. VUint (uint b)) p, [])), d1)
                            else Inr (VSlice (Some (map (\<lambda>b. VUint (uint b)) p,
                                                    drop (length p) (xs @ sp))), d1))
              | _ \<Rightarrow> Inl Panicked))
      else skipped kind t v d)"

definition decodeBool :: "int \<Rightarrow> gtype \<Rightarrow> gval \<Rightarrow> bool \<Rightarrow> decodeState \<Rightarrow> gval decoding" where
  "decodeBool kind t v addr d =
     (if kind = kindBool \<or> kind = kindInt32 \<or> kind = kindInt64 \<or> kind = kindFloat then
        (case (if kind = kindBool then scanBool d
               else if kind = kindInt32 then
                 (case scanInt32 d of Inl f \<Rightarrow> Inl f | Inr (x, d1) \<Rightarrow> Inr (x \<noteq> 0, d1))
               else if kind = kindInt64 then
                 (case scanInt64 d of Inl f \<Rightarrow> Inl f | Inr (x, d1) \<Rightarrow> Inr (x \<noteq> 0, d1))
               else
                 (case scanFloat d of Inl f \<Rightarrow> Inl f
                  | Inr (x, d1) \<Rightarrow> Inr (float64_nonzero x, d1))) of
           Inl f \<Rightarrow> Inl f
         | Inr (b, d1) \<Rightarrow> if \<not> addr then Inl Panicked else Inr (VBool b, d1))
      else skipped kind t v d)"

definition decodeMinMax :: "int \<Rightarrow> gtype \<Rightarrow> gval \<Rightarrow> bool \<Rightarrow> decodeState \<Rightarrow> gval decoding" where
  "decodeMinMax kind t v addr d =
     (if kind = kindMaxValue \<or> kind = kindMinValue then
        (if \<not> addr then Inl Panicked
         else Inr (VInt (if kind = kindMaxValue then 1 else - 1), d))
      else Inr (v, saveError (DecodeConvertError kind t) d))"

text \<open>
  \<open>decodeInterface\<close>: \<open>reflect.ValueOf(nil)\<close> is the zero \<open>Value\<close>, and \<open>Set\<close> panics on it.
\<close>

definition decodeInterface ::
    "nat \<Rightarrow> int \<Rightarrow> gtype \<Rightarrow> gval \<Rightarrow> bool \<Rightarrow> decodeState \<Rightarrow> gval decoding" where
  "decodeInterface fuel kind t v addr d =
     (case decodeValueInterface fuel kind d of
        Inl f \<Rightarrow> Inl f
      | Inr (x, d1) \<Rightarrow>
          if \<not> addr \<or> x = None then Inl Panicked else Inr (VIface x, d1))"

text \<open>
  \<open>decodeMapStringInterface\<close>: after \<open>saveErrorAndSkip\<close> for a kind that is not a
  document there is no \<open>return\<close>, and the function goes on to read a document.
\<close>

definition decodeMapStringInterface ::
    "nat \<Rightarrow> int \<Rightarrow> gtype \<Rightarrow> gval \<Rightarrow> bool \<Rightarrow> decodeState \<Rightarrow> gval decoding" where
  "decodeMapStringInterface fuel kind t v addr d =
     (case (if kind \<noteq> kindDocument then saveErrorAndSkip kind t d else Inr ((), d)) of
        Inl f \<Rightarrow> Inl f
      | Inr (u, d1) \<Rightarrow>
          (case v of
             VMap mo \<Rightarrow>
               if mo = None \<and> \<not> addr then Inl Panicked
               else (case beginDoc d1 of
                       Inl f \<Rightarrow> Inl f
                     | Inr (off, d2) \<Rightarrow>
                         (case mapStringInterfaceLoop fuel
                                 (case mo of None \<Rightarrow> [] | Some m \<Rightarrow> m) d2 of
                            Inl f \<Rightarrow> Inl f
                          | Inr (m, d3) \<Rightarrow>
                              (case endDoc off d3 of
                                 Inl f \<Rightarrow> Inl f
                               | Inr (u, d4) \<Rightarrow> Inr (VMap (Some m), d4))))
           | _ \<Rightarrow> Inl Panicked))"

text \<open>\<open>FieldByIndex\<close> on a value and on a type, and the store through it.\<close>

fun FieldByIndex :: "gval \<Rightarrow> nat list \<Rightarrow> gval option" where
  "FieldByIndex v [] = Some v"
| "FieldByIndex v (i # idx) =
     (case v of
        VStruct fs \<Rightarrow> if i < length fs then FieldByIndex (fs ! i) idx else None
      | _ \<Rightarrow> None)"

fun SetFieldByIndex :: "gval \<Rightarrow> nat list \<Rightarrow> gval \<Rightarrow> gval" where
  "SetFieldByIndex v [] x = x"
| "SetFieldByIndex v (i # idx) x =
     (case v of
        VStruct fs \<Rightarrow> VStruct (fs[i := SetFieldByIndex (fs ! i) idx x])
      | _ \<Rightarrow> v)"

fun underlying :: "gtype \<Rightarrow> gtype" where
  "underlying (TNamed n u) = underlying u"
| "underlying t = t"

fun FieldTypeByIndex :: "gtype \<Rightarrow> nat list \<Rightarrow> gtype option" where
  "FieldTypeByIndex t [] = Some t"
| "FieldTypeByIndex t (i # idx) =
     (case underlying t of
        TStruct fs \<Rightarrow> if i < length fs then FieldTypeByIndex (f_Type (fs ! i)) idx else None
      | _ \<Rightarrow> None)"

text \<open>
  Modelled from the spec: \<open>structSpecForType\<close> and \<open>fieldSpec\<close>, which \<open>decodeStruct\<close>
  calls, are not among the sources. The specification describes the struct metadata
  as the per-type field map with the access path of each field; the sources have it
  as \<open>structInfoForType\<close> and \<open>FieldInfo\<close>, and the embedding uses these.
\<close>

definition structSpecForType :: "gtype \<Rightarrow> fault + structInfo" where
  "structSpecForType t = buildStructInfo t"

definition fieldSpec :: "structInfo \<Rightarrow> byte list \<Rightarrow> fieldInfo option" where
  "fieldSpec ss name = FieldInfo ss (string_of_bytes name)"

text \<open>
  What \<open>reflect\<close> gives for a type and a value: the element type of a pointer, slice or
  array type, the key and element types of a map type, and the parts of a value of
  each of these kinds.
\<close>

definition ptrElem :: "gtype \<Rightarrow> gtype option" where
  "ptrElem t = (case underlying t of TPtr e \<Rightarrow> Some e | _ \<Rightarrow> None)"

definition sliceElem :: "gtype \<Rightarrow> gtype option" where
  "sliceElem t = (case underlying t of TSlice e \<Rightarrow> Some e | _ \<Rightarrow> None)"

definition arrayElem :: "gtype \<Rightarrow> gtype option" where
  "arrayElem t = (case underlying t of TArray n e \<Rightarrow> Some e | _ \<Rightarrow> None)"

definition mapKeyElem :: "gtype \<Rightarrow> (gtype \<times> gtype) option" where
  "mapKeyElem t = (case underlying t of TMap k e \<Rightarrow> Some (k, e) | _ \<Rightarrow> None)"

definition asIface :: "gval \<Rightarrow> iface option" where
  "asIface v = (case v of VIface x \<Rightarrow> Some x | _ \<Rightarrow> None)"

definition asPtr :: "gval \<Rightarrow> gval option option" where
  "asPtr v = (case v of VPtr x \<Rightarrow> Some x | _ \<Rightarrow> None)"

definition asMap :: "gval \<Rightarrow> (string \<times> gval) list option option" where
  "asMap v = (case v of VMap x \<Rightarrow> Some x | _ \<Rightarrow> None)"

definition asSlice :: "gval \<Rightarrow> (gval list \<times> gval list) option option" where
  "asSlice v = (case v of VSlice x \<Rightarrow> Some x | _ \<Rightarrow> None)"

definition asArray :: "gval \<Rightarrow> gval list option" where
  "asArray v = (case v of VArray x \<Rightarrow> Some x | _ \<Rightarrow> None)"

text \<open>
  The first half of a turn of the loop of \<open>decodeSlice\<close>: a slice whose capacity is
  reached is replaced by a copy with a larger backing array, and a slice whose length
  is reached is extended by one element of its backing array. Both are a \<open>Set\<close> on the
  slice. The result is the elements and the rest of the backing array.
\<close>

definition sliceMakeRoom ::
    "gtype \<Rightarrow> bool \<Rightarrow> (gval list \<times> gval list) option \<Rightarrow> nat
      \<Rightarrow> fault + (gval list \<times> gval list)" where
  "sliceMakeRoom et addr sl i =
     (let xs = (case sl of None \<Rightarrow> [] | Some (xs, sp) \<Rightarrow> xs);
          sp = (case sl of None \<Rightarrow> [] | Some (xs, sp) \<Rightarrow> sp);
          cap = length xs + length sp;
          newcap = (if cap + cap div 2 < 4 then 4 else cap + cap div 2);
          grow = (i \<ge> cap);
          sp = (if grow then replicate (newcap - length xs) (Zero et) else sp);
          extend = (i \<ge> length xs)
      in if (grow \<or> extend) \<and> \<not> addr then Inl Panicked
         else if extend \<and> i + 1 > length xs + length sp then Inl Panicked
         else if extend then Inr (xs @ take (i + 1 - length xs) sp, drop (i + 1 - length xs) sp)
         else Inr (xs, sp))"

text \<open>The field that an access path leads to, with its type.\<close>

definition structField :: "gtype \<Rightarrow> gval \<Rightarrow> nat list \<Rightarrow> (gtype \<times> gval) option" where
  "structField t v idx =
     (case FieldTypeByIndex t idx of
        None \<Rightarrow> None
      | Some ft \<Rightarrow> (case FieldByIndex v idx of None \<Rightarrow> None | Some fv \<Rightarrow> Some (ft, fv)))"

text \<open>
  The loops of \<open>decodeMap\<close>, \<open>decodeSlice\<close>, \<open>decodeArray\<close> and \<open>decodeStruct\<close>. Each
  calls \<open>decodeValue\<close> on an element; it is their argument \<open>decodeValue'\<close>, so that
  \<open>decodeValue\<close> can be defined after them by recursion on the fuel. In
  \<open>decodeSlice_loop\<close> the slice is its elements and the rest of its backing array,
  \<open>None\<close> for a nil slice. \<open>SetMapIndex\<close> panics when the key, a \<open>string\<close>, cannot be
  assigned to the key type of the map.
\<close>

type_synonym valueDecoder = "int \<Rightarrow> gtype \<Rightarrow> gval \<Rightarrow> bool \<Rightarrow> decodeState \<Rightarrow> gval decoding"

primrec decodeMap_loop ::
    "nat \<Rightarrow> valueDecoder \<Rightarrow> gtype \<Rightarrow> gtype \<Rightarrow> (string \<times> gval) list \<Rightarrow> decodeState
      \<Rightarrow> ((string \<times> gval) list) decoding" where
  "decodeMap_loop 0 decodeValue' kt et m d = Inl OutOfFuel"
| "decodeMap_loop (Suc fuel) decodeValue' kt et m d =
     (case scanKindName d of
        Inl f \<Rightarrow> Inl f
      | Inr ((kind, name), d1) \<Rightarrow>
          if kind = 0 then Inr (m, d1)
          else if kind = kindNull then decodeMap_loop fuel decodeValue' kt et m d1
          else (case decodeValue' kind et (Zero et) True d1 of
                  Inl f \<Rightarrow> Inl f
                | Inr (subv, d2) \<Rightarrow>
                    if kt \<noteq> TString then Inl Panicked
                    else decodeMap_loop fuel decodeValue' kt et
                           (mapassign (string_of_bytes name) subv m) d2))"

primrec decodeSlice_loop ::
    "nat \<Rightarrow> valueDecoder \<Rightarrow> gtype \<Rightarrow> bool \<Rightarrow> (gval list \<times> gval list) option \<Rightarrow> nat
      \<Rightarrow> decodeState \<Rightarrow> ((gval list \<times> gval list) option) decoding" where
  "decodeSlice_loop 0 decodeValue' et addr sl i d = Inl OutOfFuel"
| "decodeSlice_loop (Suc fuel) decodeValue' et addr sl i d =
     (case scanKindName d of
        Inl f \<Rightarrow> Inl f
      | Inr ((kind, name), d1) \<Rightarrow>
          if kind = 0 then Inr (sl, d1)
          else (case sliceMakeRoom et addr sl i of
                  Inl f \<Rightarrow> Inl f
                | Inr (xs, sp) \<Rightarrow>
                    (case decodeValue' kind et (xs ! i) True d1 of
                       Inl f \<Rightarrow> Inl f
                     | Inr (x, d2) \<Rightarrow>
                         decodeSlice_loop fuel decodeValue' et addr
                           (Some (xs[i := x], sp)) (i + 1) d2)))"

primrec decodeArray_loop ::
    "nat \<Rightarrow> valueDecoder \<Rightarrow> gtype \<Rightarrow> bool \<Rightarrow> gval list \<Rightarrow> nat \<Rightarrow> decodeState
      \<Rightarrow> (gval list) decoding" where
  "decodeArray_loop 0 decodeValue' et addr xs i d = Inl OutOfFuel"
| "decodeArray_loop (Suc fuel) decodeValue' et addr xs i d =
     (case scanKindName d of
        Inl f \<Rightarrow> Inl f
      | Inr ((kind, name), d1) \<Rightarrow>
          if kind = 0 then Inr (xs, d1)
          else if i < length xs then
            (case decodeValue' kind et (xs ! i) addr d1 of
               Inl f \<Rightarrow> Inl f
             | Inr (x, d2) \<Rightarrow>
                 decodeArray_loop fuel decodeValue' et addr (xs[i := x]) (i + 1) d2)
          else
            (case skipValue kind d1 of
               Inl f \<Rightarrow> Inl f
             | Inr (u, d2) \<Rightarrow> decodeArray_loop fuel decodeValue' et addr xs (i + 1) d2))"

primrec decodeStruct_loop ::
    "nat \<Rightarrow> valueDecoder \<Rightarrow> gtype \<Rightarrow> structInfo \<Rightarrow> bool \<Rightarrow> gval \<Rightarrow> decodeState
      \<Rightarrow> gval decoding" where
  "decodeStruct_loop 0 decodeValue' t ss addr v d = Inl OutOfFuel"
| "decodeStruct_loop (Suc fuel) decodeValue' t ss addr v d =
     (case scanKindName d of
        Inl f \<Rightarrow> Inl f
      | Inr ((kind, name), d1) \<Rightarrow>
          if kind = 0 then Inr (v, d1)
          else if kind = kindNull then decodeStruct_loop fuel decodeValue' t ss addr v d1
          else
            (case fieldSpec ss name of
               Some fs \<Rightarrow>
                 (case structField t v (fi_index fs) of
                    None \<Rightarrow> Inl Panicked
                  | Some (ft, fv) \<Rightarrow>
                      (case decodeValue' kind ft fv addr d1 of
                         Inl f \<Rightarrow> Inl f
                       | Inr (x, d2) \<Rightarrow>
                           decodeStruct_loop fuel decodeValue' t ss addr
                             (SetFieldByIndex v (fi_index fs) x) d2))
             | None \<Rightarrow>
                 (case skipValue kind d1 of
                    Inl f \<Rightarrow> Inl f
                  | Inr (u, d2) \<Rightarrow> decodeStruct_loop fuel decodeValue' t ss addr v d2)))"

text \<open>
  The four decoders of composite targets, around their loops. \<open>decodeStruct\<close> does not
  look at the kind.
\<close>

definition decodeMap ::
    "nat \<Rightarrow> valueDecoder \<Rightarrow> int \<Rightarrow> gtype \<Rightarrow> gval \<Rightarrow> bool \<Rightarrow> decodeState \<Rightarrow> gval decoding" where
  "decodeMap fuel decodeValue' kind t v addr d =
     (case mapKeyElem t of
        None \<Rightarrow> Inl Panicked
      | Some (kt, et) \<Rightarrow>
          (case asMap v of
             None \<Rightarrow> Inl Panicked
           | Some mo \<Rightarrow>
               if Kind_of kt \<noteq> reflect_String \<or> kind \<noteq> kindDocument
               then skipped kind t v d
               else if mo = None \<and> \<not> addr then Inl Panicked
               else (case beginDoc d of
                       Inl f \<Rightarrow> Inl f
                     | Inr (off, d1) \<Rightarrow>
                         (case decodeMap_loop fuel decodeValue' kt et
                                 (case mo of None \<Rightarrow> [] | Some m \<Rightarrow> m) d1 of
                            Inl f \<Rightarrow> Inl f
                          | Inr (m, d2) \<Rightarrow>
                              (case endDoc off d2 of
                                 Inl f \<Rightarrow> Inl f
                               | Inr (u, d3) \<Rightarrow> Inr (VMap (Some m), d3))))))"

definition decodeSlice ::
    "nat \<Rightarrow> valueDecoder \<Rightarrow> int \<Rightarrow> gtype \<Rightarrow> gval \<Rightarrow> bool \<Rightarrow> decodeState \<Rightarrow> gval decoding" where
  "decodeSlice fuel decodeValue' kind t v addr d =
     (if kind \<noteq> kindArray then skipped kind t v d
      else (case sliceElem t of
              None \<Rightarrow> Inl Panicked
            | Some et \<Rightarrow>
                (case asSlice v of
                   None \<Rightarrow> Inl Panicked
                 | Some sl \<Rightarrow>
                     (case beginDoc d of
                        Inl f \<Rightarrow> Inl f
                      | Inr (off, d1) \<Rightarrow>
                          (case decodeSlice_loop fuel decodeValue' et addr sl 0 d1 of
                             Inl f \<Rightarrow> Inl f
                           | Inr (sl', d2) \<Rightarrow>
                               (case endDoc off d2 of
                                  Inl f \<Rightarrow> Inl f
                                | Inr (u, d3) \<Rightarrow> Inr (VSlice sl', d3)))))))"

definition decodeArray ::
    "nat \<Rightarrow> valueDecoder \<Rightarrow> int \<Rightarrow> gtype \<Rightarrow> gval \<Rightarrow> bool \<Rightarrow> decodeState \<Rightarrow> gval decoding" where
  "decodeArray fuel decodeValue' kind t v addr d =
     (if kind \<noteq> kindArray then skipped kind t v d
      else (case arrayElem t of
              None \<Rightarrow> Inl Panicked
            | Some et \<Rightarrow>
                (case asArray v of
                   None \<Rightarrow> Inl Panicked
                 | Some xs \<Rightarrow>
                     (case beginDoc d of
                        Inl f \<Rightarrow> Inl f
                      | Inr (off, d1) \<Rightarrow>
                          (case decodeArray_loop fuel decodeValue' et addr xs 0 d1 of
                             Inl f \<Rightarrow> Inl f
                           | Inr (xs', d2) \<Rightarrow>
                               (case endDoc off d2 of
                                  Inl f \<Rightarrow> Inl f
                                | Inr (u, d3) \<Rightarrow> Inr (VArray xs', d3)))))))"

definition decodeStruct ::
    "nat \<Rightarrow> valueDecoder \<Rightarrow> int \<Rightarrow> gtype \<Rightarrow> gval \<Rightarrow> bool \<Rightarrow> decodeState \<Rightarrow> gval decoding" where
  "decodeStruct fuel decodeValue' kind t v addr d =
     (case structSpecForType t of
        Inl f \<Rightarrow> Inl f
      | Inr ss \<Rightarrow>
          (case beginDoc d of
             Inl f \<Rightarrow> Inl f
           | Inr (off, d1) \<Rightarrow>
               (case decodeStruct_loop fuel decodeValue' t ss addr v d1 of
                  Inl f \<Rightarrow> Inl f
                | Inr (v', d2) \<Rightarrow>
                    (case endDoc off d2 of
                       Inl f \<Rightarrow> Inl f
                     | Inr (u, d3) \<Rightarrow> Inr (v', d3)))))"

text \<open>
  A decoder of the tables, applied. The fuel bounds the loops of the decoder and the
  calls of \<open>decodeValue\<close> inside them.
\<close>

definition applyDecoder ::
    "decoderFunc \<Rightarrow> nat \<Rightarrow> floatOps \<Rightarrow> valueDecoder \<Rightarrow> valueDecoder" where
  "applyDecoder dec fuel fp decodeValue' kind t v addr d =
     (case dec of
        DecodeBool \<Rightarrow> decodeBool kind t v addr d
      | DecodeFloat \<Rightarrow> decodeFloat fp kind t v addr d
      | DecodeInt \<Rightarrow> decodeInt fp kind t v addr d
      | DecodeUint \<Rightarrow> decodeUint fp kind t v addr d
      | DecodeMap \<Rightarrow> decodeMap fuel decodeValue' kind t v addr d
      | DecodeString \<Rightarrow> decodeString kind t v addr d
      | DecodeStruct \<Rightarrow> decodeStruct fuel decodeValue' kind t v addr d
      | DecodeSlice \<Rightarrow> decodeSlice fuel decodeValue' kind t v addr d
      | DecodeArray \<Rightarrow> decodeArray fuel decodeValue' kind t v addr d
      | DecodeBSONData \<Rightarrow> decodeBSONData kind t v addr d
      | DecodeDateTime \<Rightarrow> decodeDateTime fp kind t v addr d
      | DecodeMinMax \<Rightarrow> decodeMinMax kind t v addr d
      | DecodeObjectId \<Rightarrow> decodeObjectId kind t v addr d
      | DecodeTimestamp \<Rightarrow> decodeTimestamp fp kind t v addr d
      | DecodeByteSlice \<Rightarrow> decodeByteSlice kind t v addr d
      | DecodeMapStringInterface \<Rightarrow> decodeMapStringInterface fuel kind t v addr d
      | DecodeInterface \<Rightarrow> decodeInterface fuel kind t v addr d)"

text \<open>
  \<open>decodeValue\<close> with the loop of \<open>indirect\<close> folded in: a value inside a non-nil
  interface cannot be set, a nil pointer is allocated, which is a \<open>Set\<close>, and the target
  of a pointer can be set.
\<close>

primrec decodeValue :: "nat \<Rightarrow> floatOps \<Rightarrow> valueDecoder" where
  "decodeValue 0 fp = (\<lambda>kind t v addr d. Inl OutOfFuel)"
| "decodeValue (Suc fuel) fp = (\<lambda>kind t v addr d.
     if Kind_of t = reflect_Interface \<and> v \<noteq> VIface None then
        (case asIface v of
           Some (Some (dt, dv)) \<Rightarrow>
             (case decodeValue fuel fp kind dt dv False d of
                Inl f \<Rightarrow> Inl f
              | Inr (dv', d1) \<Rightarrow> Inr (VIface (Some (dt, dv')), d1))
         | _ \<Rightarrow> Inl Panicked)
      else if Kind_of t = reflect_Ptr then
        (case ptrElem t of
           None \<Rightarrow> Inl Panicked
         | Some e \<Rightarrow>
             (case asPtr v of
                None \<Rightarrow> Inl Panicked
              | Some None \<Rightarrow>
                  if \<not> addr then Inl Panicked
                  else (case decodeValue fuel fp kind e (Zero e) True d of
                          Inl f \<Rightarrow> Inl f
                        | Inr (x, d1) \<Rightarrow> Inr (VPtr (Some x), d1))
              | Some (Some y) \<Rightarrow>
                  (case decodeValue fuel fp kind e y True d of
                     Inl f \<Rightarrow> Inl f
                   | Inr (x, d1) \<Rightarrow> Inr (VPtr (Some x), d1))))
      else
        (case decoderFor t of
           None \<Rightarrow> skipped kind t v d
         | Some dec \<Rightarrow> applyDecoder dec fuel fp (decodeValue fuel fp) kind t v addr d))"

text \<open>
  What is passed to \<open>Decode\<close> as \<open>v\<close>: a \<open>reflect.Value\<close>, with its type, what it holds and
  whether it can be set, or any other value of type \<open>interface{}\<close>.
\<close>

datatype target = ReflectValue gtype gval bool | Other iface

text \<open>
  \<open>handleAbort\<close> turns an abort into the returned error and lets any other panic
  pass. The result of \<open>decodeInternal\<close> is the error it returns and the target after the
  call; after an abort and after the three early returns the embedding gives no
  target.
\<close>

definition handleAbort ::
    "fault + (error option \<times> gval option) \<Rightarrow> fault + (error option \<times> gval option)" where
  "handleAbort r =
     (case r of
        Inl (Aborted err) \<Rightarrow> Inr (Some err, None)
      | Inl f \<Rightarrow> Inl f
      | Inr x \<Rightarrow> Inr x)"

definition decodeInternal ::
    "nat \<Rightarrow> floatOps \<Rightarrow> int \<Rightarrow> byte list \<Rightarrow> byte list \<Rightarrow> target
      \<Rightarrow> fault + (error option \<times> gval option)" where
  "decodeInternal fuel fp kind bytes rest v =
     handleAbort
       (let d = \<lparr>data = bytes, spare = rest, offset = 0, savedError = None\<rparr>
        in case v of
             ReflectValue t x addr \<Rightarrow>
               (case decodeValue fuel fp kind t x addr d of
                  Inl f \<Rightarrow> Inl f
                | Inr (x', d') \<Rightarrow> Inr (savedError d', Some x'))
           | Other None \<Rightarrow> Inr (Some ErrNotPointerOrMap, None)
           | Other (Some (t, x)) \<Rightarrow>
               if Kind_of t = reflect_Map then
                 (if x = VMap None then Inr (Some ErrMapNil, None)
                  else (case decodeValue fuel fp kind t x False d of
                          Inl f \<Rightarrow> Inl f
                        | Inr (x', d') \<Rightarrow> Inr (savedError d', Some x')))
               else if Kind_of t = reflect_Ptr then
                 (case asPtr x of
                    None \<Rightarrow> Inl Panicked
                  | Some None \<Rightarrow> Inr (Some ErrPointerNil, None)
                  | Some (Some y) \<Rightarrow>
                      (case ptrElem t of
                         None \<Rightarrow> Inl Panicked
                       | Some e \<Rightarrow>
                           (case decodeValue fuel fp kind e y True d of
                              Inl f \<Rightarrow> Inl f
                            | Inr (y', d') \<Rightarrow> Inr (savedError d', Some (VPtr (Some y'))))))
               else Inr (Some ErrNotPointerOrMap, None))"

definition Decode ::
    "nat \<Rightarrow> floatOps \<Rightarrow> byte list \<Rightarrow> byte list \<Rightarrow> target
      \<Rightarrow> fault + (error option \<times> gval option)" where
  "Decode fuel fp bytes rest v = decodeInternal fuel fp kindDocument bytes rest v"

text \<open>\<open>BSONData.Decode\<close>, on the kind and the bytes of the carrier.\<close>

definition BSONData_Decode ::
    "nat \<Rightarrow> floatOps \<Rightarrow> int \<Rightarrow> byte list \<Rightarrow> byte list \<Rightarrow> target
      \<Rightarrow> fault + (error option \<times> gval option)" where
  "BSONData_Decode fuel fp bd_Kind bd_Data rest v =
     decodeInternal fuel fp bd_Kind bd_Data rest v"

text \<open>
  The invalid targets in the words of the specification: a nil map, a nil pointer, or a
  value that is neither a pointer nor a map. The untyped \<open>nil\<close> is among the last, and so
  is a \<open>reflect.Value\<close>, which is a struct, whatever it holds.
\<close>

definition invalid_target :: "target \<Rightarrow> bool" where
  "invalid_target v \<longleftrightarrow>
     (case v of
        ReflectValue t x addr \<Rightarrow> True
      | Other None \<Rightarrow> True
      | Other (Some (t, x)) \<Rightarrow>
          (Kind_of t = reflect_Map \<and> x = VMap None)
          \<or> (Kind_of t = reflect_Ptr \<and> x = VPtr None)
          \<or> (Kind_of t \<noteq> reflect_Map \<and> Kind_of t \<noteq> reflect_Ptr))"

definition is_reflect_Value :: "target \<Rightarrow> bool" where
  "is_reflect_Value v \<longleftrightarrow> (case v of ReflectValue t x addr \<Rightarrow> True | Other i \<Rightarrow> False)"

text \<open>Targets and inputs used as examples.\<close>

definition example_uint64_struct :: gtype where
  "example_uint64_struct = TStruct [Field ''A'' '''' False ''a'' TUint64]"

definition example_uint32_struct :: gtype where
  "example_uint32_struct = TStruct [Field ''A'' '''' False ''a'' TUint32]"

definition example_string_struct :: gtype where
  "example_string_struct =
     TStruct [Field ''A'' '''' False ''a'' TString, Field ''B'' '''' False ''b'' TInt32]"

definition example_minmax_struct :: gtype where
  "example_minmax_struct =
     TStruct [Field ''A'' '''' False ''a'' MinMax_t, Field ''B'' '''' False ''b'' TInt32]"

definition example_map_struct :: gtype where
  "example_map_struct =
     TStruct [Field ''M'' '''' False ''m'' (TMap TString (TInterface [])),
              Field ''B'' '''' False ''b'' TInt32]"

definition pointer_to_zero :: "gtype \<Rightarrow> target" where
  "pointer_to_zero t = Other (Some (TPtr t, VPtr (Some (Zero t))))"

definition empty_map_of :: "gtype \<Rightarrow> target" where
  "empty_map_of t = Other (Some (TMap TString t, VMap (Some [])))"

definition empty_map_target :: target where
  "empty_map_target = Other (Some (TMap TString (TInterface []), VMap (Some [])))"

text \<open>The document \<open>{a: int64(-1)}\<close>.\<close>

definition doc_minus_one :: "byte list" where
  "doc_minus_one =
     [16, 0, 0, 0,
      0x12, 0x61, 0, 0xff, 0xff, 0xff, 0xff, 0xff, 0xff, 0xff, 0xff,
      0]"

text \<open>The documents \<open>{a: int32(5), b: int32(7)}\<close> and \<open>{m: int32(5), b: int32(7)}\<close>.\<close>

definition doc_a5_b7 :: "byte list" where
  "doc_a5_b7 =
     [19, 0, 0, 0,
      0x10, 0x61, 0, 5, 0, 0, 0,
      0x10, 0x62, 0, 7, 0, 0, 0,
      0]"

definition doc_m5_b7 :: "byte list" where
  "doc_m5_b7 =
     [19, 0, 0, 0,
      0x10, 0x6d, 0, 5, 0, 0, 0,
      0x10, 0x62, 0, 7, 0, 0, 0,
      0]"

text \<open>The documents \<open>{a: {b: null}}\<close> and \<open>{b: null}\<close>.\<close>

definition doc_nested_null :: "byte list" where
  "doc_nested_null =
     [16, 0, 0, 0,
      0x03, 0x61, 0,
        8, 0, 0, 0, 0x0a, 0x62, 0, 0,
      0]"

definition doc_null :: "byte list" where
  "doc_null = [8, 0, 0, 0, 0x0a, 0x62, 0, 0]"

text \<open>Float operations for running the decoder on inputs without floating-point numbers.\<close>

definition example_floatOps :: floatOps where
  "example_floatOps =
     \<lparr>float64_of_int64 = (\<lambda>x. 0), int64_of_float64 = (\<lambda>x. 0), uint64_of_float64 = (\<lambda>x. 0),
      float32_of_float64 = (\<lambda>x. x), overflowFloat32 = (\<lambda>x. False)\<rparr>"

text \<open>
  The saved error is the first one: \<open>keeps_first_error d d'\<close> says that an error saved in
  the state \<open>d\<close> is still the saved error of the later state \<open>d'\<close>, and
  \<open>error_kept decodeValue'\<close> that this holds from before to after every call of the
  decoder \<open>decodeValue'\<close> that returns.
\<close>

definition keeps_first_error :: "decodeState \<Rightarrow> decodeState \<Rightarrow> bool" where
  "keeps_first_error d d' \<longleftrightarrow> (savedError d \<noteq> None \<longrightarrow> savedError d' = savedError d)"







chapter \<open>Properties\<close>

section \<open>Object identifiers: layout\<close>

lemma unat_byte_of_drop:
  "unat (ucast (drop_bit k (c::64 word)) :: byte) = (unat c div 2 ^ k) mod 256"
  by (simp only: unsigned_ucast_eq unat_drop_bit_eq) (simp add: take_bit_eq_mod drop_bit_eq_div)

lemma unat_byte_of_word: "unat (ucast (c::64 word) :: byte) = unat c mod 256"
  by (simp add: unsigned_ucast_eq take_bit_eq_mod)

text \<open>The low bytes of a shifted time do not see the sign extension.\<close>

lemma byte_of_signed_drop:
  "k \<le> 24 \<Longrightarrow> (ucast (signed_drop_bit k (t::64 word)) :: byte) = ucast (drop_bit k t)"
  by (rule bit_word_eqI) (auto simp: bit_simps)

lemma be_step: "(n div 2 ^ (k + 8)) * 256 + (n div 2 ^ k) mod 256 = (n::nat) div 2 ^ k"
proof -
  have "n div 2 ^ (k + 8) = (n div 2 ^ k) div 256"
    by (simp add: power_add div_mult2_eq)
  then show ?thesis by simp
qed

lemma unat_lt_64: "unat (c::64 word) < 2 ^ 64"
  using unsigned_less [of c, where ?'a = nat] by simp

lemma be_acc_step:
  assumes "unat (b::byte) = (n div 2 ^ k) mod 256" and "j = k + 8"
  shows "foldl (\<lambda>a (b::byte). a * 256 + unat b) (n div 2 ^ j) (b # bs)
         = foldl (\<lambda>a b. a * 256 + unat b) (n div 2 ^ k) bs"
  using assms be_step [of n k] by simp

lemma be_counter: "be_nat (drop 4 (newObjectId t c)) = unat c"
proof -
  have z: "unat c div 2 ^ 64 = 0" using unat_lt_64 [of c] by simp
  have l: "unat (ucast c :: byte) = (unat c div 2 ^ 0) mod 256"
    by (simp add: unat_byte_of_word)
  have "be_nat (drop 4 (newObjectId t c)) =
    foldl (\<lambda>a (b::byte). a * 256 + unat b) (unat c div 2 ^ 64)
      [ucast (drop_bit 56 c), ucast (drop_bit 48 c), ucast (drop_bit 40 c),
      ucast (drop_bit 32 c), ucast (drop_bit 24 c), ucast (drop_bit 16 c),
      ucast (drop_bit 8 c), ucast c]"
    by (simp only: z be_nat_def newObjectId_def) simp
  also have "\<dots> = foldl (\<lambda>a (b::byte). a * 256 + unat b) (unat c div 2 ^ 0) []"
    by (simp only: be_acc_step [OF unat_byte_of_drop, of _ 56]
       be_acc_step [OF unat_byte_of_drop, of _ 48]
       be_acc_step [OF unat_byte_of_drop, of _ 40] be_acc_step [OF unat_byte_of_drop, of _ 32]
       be_acc_step [OF unat_byte_of_drop, of _ 24] be_acc_step [OF unat_byte_of_drop, of _ 16]
       be_acc_step [OF unat_byte_of_drop, of _ 8] be_acc_step [OF l, of 8])
  finally show ?thesis by simp
qed

lemma be_time:
  assumes "unat t < 2 ^ 32"
  shows "be_nat (take 4 (newObjectId t c)) = unat t"
proof -
  have z: "unat t div 2 ^ 32 = 0" using assms by simp
  have l: "unat (ucast t :: byte) = (unat t div 2 ^ 0) mod 256"
    by (simp add: unat_byte_of_word)
  have "be_nat (take 4 (newObjectId t c)) =
    foldl (\<lambda>a (b::byte). a * 256 + unat b) (unat t div 2 ^ 32)
      [ucast (drop_bit 24 t), ucast (drop_bit 16 t), ucast (drop_bit 8 t), ucast t]"
    by (simp only: z be_nat_def newObjectId_def) (simp add: byte_of_signed_drop)
  also have "\<dots> = foldl (\<lambda>a (b::byte). a * 256 + unat b) (unat t div 2 ^ 0) []"
    by (simp only: be_acc_step [OF unat_byte_of_drop, of _ 24]
       be_acc_step [OF unat_byte_of_drop, of _ 16]
       be_acc_step [OF unat_byte_of_drop, of _ 8] be_acc_step [OF l, of 8])
  finally show ?thesis by simp
qed

lemma nat_lt_2p32: "0 \<le> (k::int) \<Longrightarrow> k < 2 ^ 32 \<Longrightarrow> nat k < 2 ^ 32"
  by simp

lemma sint_unat:
  assumes "0 \<le> sint (t::64 word)" and "sint t < 2 ^ 32"
  shows "int (unat t) = sint t" and "unat t < 2 ^ 32"
proof -
  have "sint t < 2 ^ 64" using assms(2) by simp
  then have "take_bit 64 (sint t) = sint t"
    using assms(1) by (simp add: take_bit_int_eq_self)
  then have e: "uint t = sint t" using uint_sint [of t] by simp
  then show "int (unat t) = sint t" by simp
  have "unat t = nat (sint t)" using e by (simp only: unat_eq_nat_uint)
  also have "\<dots> < 2 ^ 32" using assms by (rule nat_lt_2p32)
  finally show "unat t < 2 ^ 32" .
qed

lemma CreationTime_be:
  assumes "length oid = 12"
  shows "CreationTime oid = of_nat (be_nat (take 4 oid))"
proof -
  obtain b0 b1 b2 b3 r where o: "oid = b0 # b1 # b2 # b3 # r"
    using assms by (auto simp: eval_nat_numeral length_Suc_conv)
  show ?thesis
    using assms unfolding o CreationTime_def be_nat_def
    by (simp add: push_bit_eq_mult algebra_simps)
qed

text \<open>
  Claim C9. For a time \<open>t\<close> with \<open>0 \<le> t < 2^32\<close> and any counter \<open>c\<close>, the object id
  built from them has twelve bytes, its first four bytes read big-endian are \<open>t\<close>, its
  last eight bytes read big-endian are \<open>c\<close>; the minimum id for \<open>t\<close> has all counter bytes
  zero, the maximum id has all counter bytes \<open>0xff\<close>, and \<open>CreationTime\<close> gives \<open>t\<close> back.
\<close>

theorem objectid_layout:
  assumes "0 \<le> sint t" and "sint t < 2 ^ 32"
  shows "length (newObjectId t c) = 12
       \<and> int (be_nat (take 4 (newObjectId t c))) = sint t
       \<and> be_nat (drop 4 (newObjectId t c)) = unat c
       \<and> take 4 (MinObjectIdForTime t) = take 4 (newObjectId t c)
       \<and> drop 4 (MinObjectIdForTime t) = [0, 0, 0, 0, 0, 0, 0, 0]
       \<and> take 4 (MaxObjectIdForTime t) = take 4 (newObjectId t c)
       \<and> drop 4 (MaxObjectIdForTime t) = [0xff, 0xff, 0xff, 0xff, 0xff, 0xff, 0xff, 0xff]
       \<and> CreationTime (newObjectId t c) = t"
proof -
  have u: "int (unat t) = sint t" using assms by (rule sint_unat(1))
  have b: "unat t < 2 ^ 32" using assms by (rule sint_unat(2))
  have len: "length (newObjectId t c) = 12" by (simp add: newObjectId_def)
  have tm: "be_nat (take 4 (newObjectId t c)) = unat t" using b by (rule be_time)
  have ct: "CreationTime (newObjectId t c) = t"
    using CreationTime_be [OF len] tm by simp
  have mn: "drop 4 (MinObjectIdForTime t) = [0, 0, 0, 0, 0, 0, 0, 0]"
    by (simp add: MinObjectIdForTime_def newObjectId_def)
  have mx: "drop 4 (MaxObjectIdForTime t) = [0xff, 0xff, 0xff, 0xff, 0xff, 0xff, 0xff, 0xff]"
    by (simp add: MaxObjectIdForTime_def newObjectId_def)
  have pre: "take 4 (MinObjectIdForTime t) = take 4 (newObjectId t c)"
    "take 4 (MaxObjectIdForTime t) = take 4 (newObjectId t c)"
    by (simp_all add: MinObjectIdForTime_def MaxObjectIdForTime_def newObjectId_def)
  show ?thesis using len tm u be_counter [of t c] ct mn mx pre by simp
qed

theorem objectid_layout_witness:
  "0 \<le> sint (0x4f1a2b3c :: 64 word) \<and> sint (0x4f1a2b3c :: 64 word) < 2 ^ 32
   \<and> newObjectId 0x4f1a2b3c 0x0102030405060708
       = [0x4f, 0x1a, 0x2b, 0x3c, 1, 2, 3, 4, 5, 6, 7, 8]
   \<and> int (be_nat (take 4 (newObjectId 0x4f1a2b3c 0x0102030405060708))) = 0x4f1a2b3c
   \<and> CreationTime (newObjectId 0x4f1a2b3c 0x0102030405060708) = 0x4f1a2b3c"
proof -
  have h: "0 \<le> sint (0x4f1a2b3c :: 64 word)" "sint (0x4f1a2b3c :: 64 word) < 2 ^ 32"
    by simp_all
  have e: "newObjectId 0x4f1a2b3c 0x0102030405060708
       = [0x4f, 0x1a, 0x2b, 0x3c, 1, 2, 3, 4, 5, 6, 7, 8]"
    by (simp add: newObjectId_def)
  show ?thesis
    using h e objectid_layout [OF h, of "0x0102030405060708"] by simp
qed

section \<open>Struct metadata\<close>

text \<open>
  Claim C5, evaluated on the code. The outer struct embeds a struct that declares \<open>X\<close>
  and then declares \<open>X\<close> itself. The embedded field is visited first and entered at depth
  1; the outer field at depth 0 replaces it in the map \<open>m\<close>, but the list \<open>l\<close> keeps the
  deeper definition next to the shallower one, and the projection names \<open>X\<close> twice.
\<close>

theorem compileStructInfo_keeps_deeper_field:
  "map_sum id si_l (buildStructInfo example_outer) =
     Inr [\<lparr>fi_name = ''X'', fi_index = [0, 0], fi_conditional = False\<rparr>,
          \<lparr>fi_name = ''X'', fi_index = [1], fi_conditional = False\<rparr>]
   \<and> map_sum id (\<lambda>si. FieldInfo si ''X'') (buildStructInfo example_outer) =
     Inr (Some \<lparr>fi_name = ''X'', fi_index = [1], fi_conditional = False\<rparr>)
   \<and> map_sum id si_fields (buildStructInfo example_outer) =
     Inr [(''X'', go_int 1), (''X'', go_int 1), (''_id'', go_int 0)]"
  by (simp add: buildStructInfo_def example_outer_def example_inner_def fieldTag_def
      FieldInfo_def Append_def Let_def)

















section \<open>Collections: write acknowledgement\<close>

lemma LastError_not_sentinel:
  "snd (fst (LastError db cmd s)) \<noteq> Some ErrNotFound"
  by (simp add: LastError_def CommandResponse_Error_def Let_def
      split: prod.splits sum.splits option.splits)

text \<open>
  The acknowledgement reports no error exactly when the command was sent, its reply was
  read, the reply is \<open>ok\<close> and carries an empty \<open>err\<close>.
\<close>

lemma LastError_no_error:
  "snd (fst (LastError db cmd s)) = None \<longleftrightarrow>
     (case Conn_Find (DbConn db) (DbName db @ ''.$cmd'')
             (if cmd = None then DefaultLastErrorCmd else cmd) runFindOptions s of
        (Inl err, s1) \<Rightarrow> False
      | (Inr cursor, s1) \<Rightarrow>
          (case Cursor_Next (DbConn db) cursor lastErrorReply_zero s1 of
             ((r, nerr), s2) \<Rightarrow>
               nerr = None \<and> Ok (reply_CommandResponse r) \<and> Err (reply_MongoError r) = ''''))"
  by (simp add: LastError_def CommandResponse_Error_def Let_def
      split: prod.splits sum.splits option.splits)

lemma not_found_after_check:
  assumes "checkError c (map_option ConnError e) s1 = ((merr, err), s2)"
  shows "(case merr of
            Some m \<Rightarrow> if err = None \<and> \<not> Updated m then Some ErrNotFound else err
          | None \<Rightarrow> err) = Some ErrNotFound
         \<longleftrightarrow> e = None \<and> LastErrorCmd c \<noteq> None
             \<and> snd (fst (LastError (Db c) (LastErrorCmd c) s1)) = None
             \<and> \<not> Updated (fst (fst (LastError (Db c) (LastErrorCmd c) s1)))"
proof (cases e)
  case (Some m)
  with assms show ?thesis by (auto simp: checkError_def)
next
  case None
  show ?thesis
  proof (cases "LastErrorCmd c = None")
    case True
    with None assms show ?thesis by (auto simp: checkError_def)
  next
    case False
    obtain m e' s' where l: "LastError (Db c) (LastErrorCmd c) s1 = ((m, e'), s')"
      by (metis prod.exhaust)
    have ne: "e' \<noteq> Some ErrNotFound"
      using LastError_not_sentinel [of "Db c" "LastErrorCmd c" s1] l by simp
    obtain v where v: "LastErrorCmd c = Some v" using False by blast
    from None l assms have "merr = Some m" "err = e'"
      by (simp_all add: checkError_def v [symmetric]) (simp_all add: v)
    with None False l ne show ?thesis by auto
  qed
qed

lemma LastError_not_updated:
  "snd (fst (LastError db cmd s)) = None \<and> \<not> Updated (fst (fst (LastError db cmd s))) \<longleftrightarrow>
     (case Conn_Find (DbConn db) (DbName db @ ''.$cmd'')
             (if cmd = None then DefaultLastErrorCmd else cmd) runFindOptions s of
        (Inl err, s1) \<Rightarrow> False
      | (Inr cursor, s1) \<Rightarrow>
          (case Cursor_Next (DbConn db) cursor lastErrorReply_zero s1 of
             ((r, nerr), s2) \<Rightarrow>
               nerr = None \<and> Ok (reply_CommandResponse r) \<and> Err (reply_MongoError r) = ''''
               \<and> \<not> Updated (reply_MongoError r)))"
  by (simp add: LastError_def CommandResponse_Error_def Let_def
      split: prod.splits sum.splits option.splits)

lemma not_found_on_connection:
  assumes "checkError c (map_option ConnError e) s1 = ((merr, err), s2)"
  shows "(case merr of
            Some m \<Rightarrow> if err = None \<and> \<not> Updated m then Some ErrNotFound else err
          | None \<Rightarrow> err) = Some ErrNotFound
         \<longleftrightarrow> LastErrorCmd c \<noteq> None \<and> e = None
             \<and> (case Conn_Find (Conn c) (fst (SplitNamespace (Namespace c)) @ ''.$cmd'')
                       (LastErrorCmd c) runFindOptions s1 of
                  (Inl err, s2) \<Rightarrow> False
                | (Inr cursor, s2) \<Rightarrow>
                    (case Cursor_Next (Conn c) cursor lastErrorReply_zero s2 of
                       ((r, nerr), s3) \<Rightarrow>
                         nerr = None \<and> Ok (reply_CommandResponse r)
                         \<and> Err (reply_MongoError r) = ''''
                         \<and> \<not> Updated (reply_MongoError r)))"
proof (cases "LastErrorCmd c = None")
  case True
  then show ?thesis using not_found_after_check [OF assms] by simp
next
  case False
  have "(snd (fst (LastError (Db c) (LastErrorCmd c) s1)) = None
          \<and> \<not> Updated (fst (fst (LastError (Db c) (LastErrorCmd c) s1))))
        =
        (case Conn_Find (Conn c) (fst (SplitNamespace (Namespace c)) @ ''.$cmd'')
                (LastErrorCmd c) runFindOptions s1 of
           (Inl err, s2) \<Rightarrow> False
         | (Inr cursor, s2) \<Rightarrow>
             (case Cursor_Next (Conn c) cursor lastErrorReply_zero s2 of
                ((r, nerr), s3) \<Rightarrow>
                  nerr = None \<and> Ok (reply_CommandResponse r)
                  \<and> Err (reply_MongoError r) = ''''
                  \<and> \<not> Updated (reply_MongoError r)))"
  proof -
    obtain v where v: "LastErrorCmd c = Some v" using False by blast
    have eq: "DbConn (Db c) = Conn c" "DbName (Db c) = fst (SplitNamespace (Namespace c))"
      by (simp_all add: Db_def)
    show ?thesis
      using LastError_not_updated [of "Db c" "Some v" s1, unfolded eq] by (simp add: v)
  qed
  then show ?thesis
    unfolding not_found_after_check [OF assms] by (simp only: conj_ac)
qed

text \<open>
  Claim C7. \<open>Update\<close> and \<open>UpdateAll\<close> return the sentinel \<open>ErrNotFound\<close> exactly when the
  collection has a write-acknowledge command, the update on the connection reports no
  error, and the acknowledgement reports none and has \<open>updatedExisting\<close> false: the command
  of the collection, sent after the update to \<open>$cmd\<close> of the collection's database, is
  accepted, and the reply read from its cursor is read without error, is \<open>ok\<close>, has an empty
  \<open>err\<close> and \<open>updatedExisting\<close> false. With no write-acknowledge command and a successful
  update on the connection they return \<open>nil\<close> and call the connection no more.
\<close>

theorem update_not_found:
  "(fst (Update c selector update s) = Some ErrNotFound \<longleftrightarrow>
      LastErrorCmd c \<noteq> None
      \<and> (case Conn_Update (Conn c) (Namespace c) selector update None s of
           (e, s1) \<Rightarrow>
             e = None
             \<and> (case Conn_Find (Conn c) (fst (SplitNamespace (Namespace c)) @ ''.$cmd'')
                       (LastErrorCmd c) runFindOptions s1 of
                  (Inl err, s2) \<Rightarrow> False
                | (Inr cursor, s2) \<Rightarrow>
                    (case Cursor_Next (Conn c) cursor lastErrorReply_zero s2 of
                       ((r, nerr), s3) \<Rightarrow>
                         nerr = None \<and> Ok (reply_CommandResponse r)
                         \<and> Err (reply_MongoError r) = ''''
                         \<and> \<not> Updated (reply_MongoError r)))))
   \<and> (fst (UpdateAll c selector update s) = Some ErrNotFound \<longleftrightarrow>
      LastErrorCmd c \<noteq> None
      \<and> (case Conn_Update (Conn c) (Namespace c) selector update (Some updateAllOptions) s of
           (e, s1) \<Rightarrow>
             e = None
             \<and> (case Conn_Find (Conn c) (fst (SplitNamespace (Namespace c)) @ ''.$cmd'')
                       (LastErrorCmd c) runFindOptions s1 of
                  (Inl err, s2) \<Rightarrow> False
                | (Inr cursor, s2) \<Rightarrow>
                    (case Cursor_Next (Conn c) cursor lastErrorReply_zero s2 of
                       ((r, nerr), s3) \<Rightarrow>
                         nerr = None \<and> Ok (reply_CommandResponse r)
                         \<and> Err (reply_MongoError r) = ''''
                         \<and> \<not> Updated (reply_MongoError r)))))
   \<and> (LastErrorCmd c = None
        \<and> fst (Conn_Update (Conn c) (Namespace c) selector update None s) = None
        \<longrightarrow> Update c selector update s
            = (None, snd (Conn_Update (Conn c) (Namespace c) selector update None s)))
   \<and> (LastErrorCmd c = None
        \<and> fst (Conn_Update (Conn c) (Namespace c) selector update
                 (Some updateAllOptions) s) = None
        \<longrightarrow> UpdateAll c selector update s
            = (None, snd (Conn_Update (Conn c) (Namespace c) selector update
                            (Some updateAllOptions) s)))"
proof (intro conjI)
  obtain e s1 where u: "Conn_Update (Conn c) (Namespace c) selector update None s = (e, s1)"
    by (metis prod.exhaust)
  obtain merr err s2 where k: "checkError c (map_option ConnError e) s1 = ((merr, err), s2)"
    by (metis prod.exhaust)
  have "fst (Update c selector update s)
          = (case merr of
               Some m \<Rightarrow> if err = None \<and> \<not> Updated m then Some ErrNotFound else err
             | None \<Rightarrow> err)"
    using u k by (simp add: Update_def Let_def)
  then show "fst (Update c selector update s) = Some ErrNotFound \<longleftrightarrow>
      LastErrorCmd c \<noteq> None
      \<and> (case Conn_Update (Conn c) (Namespace c) selector update None s of
           (e, s1) \<Rightarrow>
             e = None
             \<and> (case Conn_Find (Conn c) (fst (SplitNamespace (Namespace c)) @ ''.$cmd'')
                       (LastErrorCmd c) runFindOptions s1 of
                  (Inl err, s2) \<Rightarrow> False
                | (Inr cursor, s2) \<Rightarrow>
                    (case Cursor_Next (Conn c) cursor lastErrorReply_zero s2 of
                       ((r, nerr), s3) \<Rightarrow>
                         nerr = None \<and> Ok (reply_CommandResponse r)
                         \<and> Err (reply_MongoError r) = ''''
                         \<and> \<not> Updated (reply_MongoError r))))"
    using not_found_on_connection [OF k] by (simp add: u)
  show "LastErrorCmd c = None
        \<and> fst (Conn_Update (Conn c) (Namespace c) selector update None s) = None
        \<longrightarrow> Update c selector update s
            = (None, snd (Conn_Update (Conn c) (Namespace c) selector update None s))"
    using u by (auto simp: Update_def checkError_def Let_def)
next
  obtain e s1 where u: "Conn_Update (Conn c) (Namespace c) selector update
                          (Some updateAllOptions) s = (e, s1)"
    by (metis prod.exhaust)
  obtain merr err s2 where k: "checkError c (map_option ConnError e) s1 = ((merr, err), s2)"
    by (metis prod.exhaust)
  have "fst (UpdateAll c selector update s)
          = (case merr of
               Some m \<Rightarrow> if err = None \<and> \<not> Updated m then Some ErrNotFound else err
             | None \<Rightarrow> err)"
    using u k by (simp add: UpdateAll_def Let_def)
  then show "fst (UpdateAll c selector update s) = Some ErrNotFound \<longleftrightarrow>
      LastErrorCmd c \<noteq> None
      \<and> (case Conn_Update (Conn c) (Namespace c) selector update (Some updateAllOptions) s of
           (e, s1) \<Rightarrow>
             e = None
             \<and> (case Conn_Find (Conn c) (fst (SplitNamespace (Namespace c)) @ ''.$cmd'')
                       (LastErrorCmd c) runFindOptions s1 of
                  (Inl err, s2) \<Rightarrow> False
                | (Inr cursor, s2) \<Rightarrow>
                    (case Cursor_Next (Conn c) cursor lastErrorReply_zero s2 of
                       ((r, nerr), s3) \<Rightarrow>
                         nerr = None \<and> Ok (reply_CommandResponse r)
                         \<and> Err (reply_MongoError r) = ''''
                         \<and> \<not> Updated (reply_MongoError r))))"
    using not_found_on_connection [OF k] by (simp add: u)
  show "LastErrorCmd c = None
        \<and> fst (Conn_Update (Conn c) (Namespace c) selector update
                 (Some updateAllOptions) s) = None
        \<longrightarrow> UpdateAll c selector update s
            = (None, snd (Conn_Update (Conn c) (Namespace c) selector update
                            (Some updateAllOptions) s))"
    using u by (auto simp: UpdateAll_def checkError_def Let_def)
qed

lemmas collection_eval =
  example_collection_def recording_conn_def checkError_def LastError_def Db_def
  SplitNamespace_def DefaultLastErrorCmd_def reply_not_updated_def
  CommandResponse_Error_def lastErrorReply_zero_def Let_def

lemmas answering_eval =
  answering_collection_def answering_conn_def reply_updated_def reply_not_ok_def
  reply_write_failed_def Update_def UpdateAll_def collection_eval

theorem update_not_found_witness:
  "Update (answering_collection None reply_not_updated DefaultLastErrorCmd) (go_int 1) (go_int 2) []
     = (Some ErrNotFound,
        [CallUpdate ''test.things'' (go_int 1) (go_int 2) None,
         CallFind ''test.$cmd'' DefaultLastErrorCmd runFindOptions, CallNext, CallClose])
   \<and> fst (UpdateAll (answering_collection None reply_not_updated (go_int 7)) (go_int 1) (go_int 2) [])
     = Some ErrNotFound
   \<and> fst (Update (answering_collection None reply_updated DefaultLastErrorCmd) (go_int 1) (go_int 2) [])
     = None
   \<and> fst (UpdateAll (answering_collection None reply_updated DefaultLastErrorCmd) (go_int 1) (go_int 2) [])
     = None
   \<and> fst (Update (answering_collection None reply_not_ok DefaultLastErrorCmd) (go_int 1) (go_int 2) [])
     = Some (CommandError ''no such cmd'')
   \<and> fst (Update (answering_collection None reply_write_failed DefaultLastErrorCmd) (go_int 1) (go_int 2) [])
     = Some (WriteError \<lparr>Err = ''duplicate key'', N = 0, Code = 11000, Updated = False,
                          UpsertedId = None\<rparr>)
   \<and> Update (answering_collection (Some ''broken pipe'') reply_not_updated DefaultLastErrorCmd)
        (go_int 1) (go_int 2) []
     = (Some (ConnError ''broken pipe''), [CallUpdate ''test.things'' (go_int 1) (go_int 2) None])
   \<and> Update (answering_collection None reply_not_updated None) (go_int 1) (go_int 2) []
     = (None, [CallUpdate ''test.things'' (go_int 1) (go_int 2) None])
   \<and> UpdateAll (answering_collection None reply_not_updated None) (go_int 1) (go_int 2) []
     = (None, [CallUpdate ''test.things'' (go_int 1) (go_int 2) (Some updateAllOptions)])"
proof -
  note t = update_not_found
  have n1: "fst (Update (answering_collection None reply_not_updated DefaultLastErrorCmd)
                   (go_int 1) (go_int 2) []) = Some ErrNotFound"
    unfolding t [THEN conjunct1] by (simp add: answering_eval)
  have n2: "fst (UpdateAll (answering_collection None reply_not_updated (go_int 7))
                   (go_int 1) (go_int 2) []) = Some ErrNotFound"
    unfolding t [THEN conjunct2, THEN conjunct1] by (simp add: answering_eval)
  have s1: "snd (Update (answering_collection None reply_not_updated DefaultLastErrorCmd)
                   (go_int 1) (go_int 2) [])
            = [CallUpdate ''test.things'' (go_int 1) (go_int 2) None,
               CallFind ''test.$cmd'' DefaultLastErrorCmd runFindOptions, CallNext, CallClose]"
    by (simp add: answering_eval)
  have c1: "Update (answering_collection None reply_not_updated DefaultLastErrorCmd) (go_int 1) (go_int 2) []
     = (Some ErrNotFound,
        [CallUpdate ''test.things'' (go_int 1) (go_int 2) None,
         CallFind ''test.$cmd'' DefaultLastErrorCmd runFindOptions, CallNext, CallClose])"
    using n1 s1 by (simp add: prod_eq_iff)
  have o: "fst (Update (answering_collection None reply_updated DefaultLastErrorCmd) (go_int 1) (go_int 2) [])
     = None"
    "fst (UpdateAll (answering_collection None reply_updated DefaultLastErrorCmd) (go_int 1) (go_int 2) [])
     = None"
    "fst (Update (answering_collection None reply_not_ok DefaultLastErrorCmd) (go_int 1) (go_int 2) [])
     = Some (CommandError ''no such cmd'')"
    "fst (Update (answering_collection None reply_write_failed DefaultLastErrorCmd) (go_int 1) (go_int 2) [])
     = Some (WriteError \<lparr>Err = ''duplicate key'', N = 0, Code = 11000, Updated = False,
                          UpsertedId = None\<rparr>)"
    "Update (answering_collection (Some ''broken pipe'') reply_not_updated DefaultLastErrorCmd)
        (go_int 1) (go_int 2) []
     = (Some (ConnError ''broken pipe''), [CallUpdate ''test.things'' (go_int 1) (go_int 2) None])"
    by (simp_all add: answering_eval)
  have h: "LastErrorCmd (answering_collection None reply_not_updated None) = None
      \<and> fst (Conn_Update (Conn (answering_collection None reply_not_updated None))
            (Namespace (answering_collection None reply_not_updated None)) (go_int 1) (go_int 2)
            None []) = None"
    "LastErrorCmd (answering_collection None reply_not_updated None) = None
      \<and> fst (Conn_Update (Conn (answering_collection None reply_not_updated None))
            (Namespace (answering_collection None reply_not_updated None)) (go_int 1) (go_int 2)
            (Some updateAllOptions) []) = None"
    by (simp_all add: answering_eval)
  have z1: "Update (answering_collection None reply_not_updated None) (go_int 1) (go_int 2) []
     = (None, [CallUpdate ''test.things'' (go_int 1) (go_int 2) None])"
    using t [THEN conjunct2, THEN conjunct2, THEN conjunct1, THEN mp, OF h(1)]
    by (simp add: answering_collection_def answering_conn_def recording_conn_def)
  have z2: "UpdateAll (answering_collection None reply_not_updated None) (go_int 1) (go_int 2) []
     = (None, [CallUpdate ''test.things'' (go_int 1) (go_int 2) (Some updateAllOptions)])"
    using t [THEN conjunct2, THEN conjunct2, THEN conjunct2, THEN mp, OF h(2)]
    by (simp add: answering_collection_def answering_conn_def recording_conn_def)
  show ?thesis
    using c1 n2 o z1 z2 by (intro conjI) assumption+
qed

section \<open>Collections: index creation\<close>

lemma strings_Index_first:
  "c \<notin> set xs \<Longrightarrow> strings_Index (xs @ c # ys) c = int (length xs)"
  by (induction xs) (auto simp: Let_def)

lemma SplitNamespace_dot:
  assumes "db \<noteq> ''''" and "CHR ''.'' \<notin> set db"
  shows "SplitNamespace (db @ ''.'' @ rest) = (db, rest)"
proof -
  have "strings_Index (db @ CHR ''.'' # rest) CHR ''.'' = int (length db)"
    using assms(2) by (rule strings_Index_first)
  then show ?thesis using assms(1) by (simp add: SplitNamespace_def)
qed

lemma underscore_joined_Cons:
  "underscore_joined (x # xs) = (if xs = [] then x else x @ ''_'' @ underscore_joined xs)"
  by (cases xs) simp_all

lemma key_words_Nil_iff: "key_words keys = [] \<longleftrightarrow> keys = []"
  by (cases keys) (auto simp: key_words_def)

lemma IndexName_loop_joined:
  assumes "\<forall>(k, v) \<in> set keys. direction v \<noteq> None"
  shows "IndexName_loop keys i buf =
           Inr (if keys = [] then buf
                else buf @ (if i \<noteq> 0 then ''_'' else '''') @ underscore_joined (key_words keys))"
  using assms
proof (induction keys arbitrary: i buf)
  case Nil
  show ?case by simp
next
  case (Cons kv keys)
  obtain k v where kv: "kv = (k, v)" by (cases kv)
  obtain dv where dv: "direction v = Some dv" using Cons.prems kv by auto
  have rest: "\<forall>(k, v) \<in> set keys. direction v \<noteq> None" using Cons.prems by simp
  have w: "key_words ((k, v) # keys) = k # dv # key_words keys"
    by (simp add: key_words_def dv)
  show ?case
    using Cons.IH [OF rest, of "i + 1"]
    by (simp add: kv dv w underscore_joined_Cons key_words_Nil_iff Let_def)
qed

lemma IndexName_joined:
  "\<forall>(k, v) \<in> set keys. direction v \<noteq> None \<Longrightarrow>
     IndexName keys = Inr (underscore_joined (key_words keys))"
  by (simp add: IndexName_def IndexName_loop_joined key_words_def)

lemma IndexName_loop_panics:
  "\<exists>(k, v) \<in> set keys. direction v = None \<Longrightarrow> IndexName_loop keys i buf = Inl Panicked"
proof (induction keys arbitrary: i buf)
  case Nil
  then show ?case by simp
next
  case (Cons kv keys)
  obtain k v where kv: "kv = (k, v)" by (cases kv)
  show ?case
  proof (cases "direction v")
    case None
    then show ?thesis by (simp add: kv)
  next
    case (Some dv)
    then have "\<exists>(k, v) \<in> set keys. direction v = None" using Cons.prems kv by auto
    then show ?thesis using Cons.IH by (simp add: kv Some Let_def)
  qed
qed

text \<open>
  Claim C8 as stated fails for a key list with a direction that is neither an \<open>int\<close>
  nor a \<open>string\<close> when no name is given: for \<open>D{{"x", 1.0}}\<close> the call panics in
  \<open>IndexName\<close>, before the insert. It also fails where the part of the namespace taken
  for \<open><db>\<close> is not what \<open>SplitNamespace\<close> takes, the text before the first dot when that
  is not empty: for the namespace \<open>.things\<close>, with an empty \<open><db>\<close>, the insert goes to
  \<open>.things.system.indexes\<close>, and for \<open>a.b.things\<close>, read with \<open>a.b\<close> as \<open><db>\<close>, to
  \<open>a.system.indexes\<close>.
\<close>

theorem create_index_direction_counterexample:
  "CreateIndex (example_collection None)
     [(''x'', Some (TFloat64, VFloat 0x3FF0000000000000))] None [] = Inl Panicked
   \<and> map_sum id (hd \<circ> snd)
        (CreateIndex ((example_collection None)\<lparr>Namespace := '''' @ ''.'' @ ''things''\<rparr>)
           [(''x'', go_int 1)] None [])
       = Inr (CallInsert ''.things.system.indexes''
                [IndexDoc \<lparr>Keys = [(''x'', go_int 1)], IndexNamespace = ''.things'',
                           Options = IndexOptions_zero\<lparr>Name := ''x_1''\<rparr>\<rparr>])
   \<and> map_sum id (hd \<circ> snd)
        (CreateIndex ((example_collection None)\<lparr>Namespace := ''a.b'' @ ''.'' @ ''things''\<rparr>)
           [(''x'', go_int 1)] None [])
       = Inr (CallInsert ''a.system.indexes''
                [IndexDoc \<lparr>Keys = [(''x'', go_int 1)], IndexNamespace = ''a.b.things'',
                           Options = IndexOptions_zero\<lparr>Name := ''x_1''\<rparr>\<rparr>])"
  by (simp add: CreateIndex_def IndexName_def IndexOptions_zero_def collection_eval
      Insert_def C_def Itoa_def digit_def)

text \<open>
  Claim C8, amended. Take a collection with namespace \<open><db>.<col>\<close>, the database name
  not empty and without a dot, and a key list whose directions are all \<open>int\<close>s or
  \<open>string\<close>s, or options that give a name. Then \<open>CreateIndex\<close> inserts the index
  descriptor on the connection into \<open><db>.system.indexes\<close>; when that insert reports
  no error it runs the acknowledgement on database \<open><db>\<close> with a command that is not
  \<open>nil\<close>, the collection's own or, where the collection has none, the default one, and
  returns its error. The descriptor has the keys, the collection's namespace and the
  options; where the options give no name, its name is the keys and their directions
  joined by underscores. Where no name is given and some direction is neither an \<open>int\<close>
  nor a \<open>string\<close>, \<open>CreateIndex\<close> panics in \<open>IndexName\<close>, before the insert, whatever the
  collection and the connection.
\<close>

theorem create_index_insert:
  "(Namespace c = db @ ''.'' @ col \<and> db \<noteq> '''' \<and> CHR ''.'' \<notin> set db
    \<and> ((case options of Some opts \<Rightarrow> Name opts \<noteq> '''' | None \<Rightarrow> False)
         \<or> (\<forall>(k, v) \<in> set keys. direction v \<noteq> None))
    \<longrightarrow>
    (let opts = (case options of Some opts \<Rightarrow> opts | None \<Rightarrow> IndexOptions_zero);
          nm = (if Name opts = '''' then underscore_joined (key_words keys) else Name opts);
          index = \<lparr>Keys = keys, IndexNamespace = Namespace c, Options = opts\<lparr>Name := nm\<rparr>\<rparr>;
          cmd = (if LastErrorCmd c = None then DefaultLastErrorCmd else LastErrorCmd c)
      in cmd \<noteq> None
         \<and> CreateIndex c keys options s =
             Inr (case Conn_Insert (Conn c) (db @ ''.system.indexes'') None [IndexDoc index] s of
                    (Some e, s1) \<Rightarrow> (Some (ConnError e), s1)
                  | (None, s1) \<Rightarrow>
                      (let ((merr, err), s2) =
                             LastError \<lparr>DbConn = Conn c, DbName = db, DbLastErrorCmd = cmd\<rparr>
                               cmd s1
                       in (err, s2)))))
   \<and> ((case options of Some opts \<Rightarrow> Name opts = '''' | None \<Rightarrow> True)
        \<and> (\<exists>(k, v) \<in> set keys. direction v = None)
       \<longrightarrow> CreateIndex c keys options s = Inl Panicked)"
proof (intro conjI impI)
  assume p: "(case options of Some opts \<Rightarrow> Name opts = '''' | None \<Rightarrow> True)
        \<and> (\<exists>(k, v) \<in> set keys. direction v = None)"
  then have "IndexName keys = Inl Panicked"
    by (simp add: IndexName_def IndexName_loop_panics)
  with p show "CreateIndex c keys options s = Inl Panicked"
    by (cases options) (simp_all add: CreateIndex_def IndexOptions_zero_def)
next
  assume h: "Namespace c = db @ ''.'' @ col \<and> db \<noteq> '''' \<and> CHR ''.'' \<notin> set db
    \<and> ((case options of Some opts \<Rightarrow> Name opts \<noteq> '''' | None \<Rightarrow> False)
         \<or> (\<forall>(k, v) \<in> set keys. direction v \<noteq> None))"
  then have assms: "Namespace c = db @ ''.'' @ col" "db \<noteq> ''''" "CHR ''.'' \<notin> set db"
    "(case options of Some opts \<Rightarrow> Name opts \<noteq> '''' | None \<Rightarrow> False)
         \<or> (\<forall>(k, v) \<in> set keys. direction v \<noteq> None)"
    by simp_all
  show "(let opts = (case options of Some opts \<Rightarrow> opts | None \<Rightarrow> IndexOptions_zero);
          nm = (if Name opts = '''' then underscore_joined (key_words keys) else Name opts);
          index = \<lparr>Keys = keys, IndexNamespace = Namespace c, Options = opts\<lparr>Name := nm\<rparr>\<rparr>;
          cmd = (if LastErrorCmd c = None then DefaultLastErrorCmd else LastErrorCmd c)
      in cmd \<noteq> None
         \<and> CreateIndex c keys options s =
             Inr (case Conn_Insert (Conn c) (db @ ''.system.indexes'') None [IndexDoc index] s of
                    (Some e, s1) \<Rightarrow> (Some (ConnError e), s1)
                  | (None, s1) \<Rightarrow>
                      (let ((merr, err), s2) =
                             LastError \<lparr>DbConn = Conn c, DbName = db, DbLastErrorCmd = cmd\<rparr>
                               cmd s1
                       in (err, s2))))"
  proof -
    define opts where "opts = (case options of Some opts \<Rightarrow> opts | None \<Rightarrow> IndexOptions_zero)"
    define nm where "nm = (if Name opts = '''' then underscore_joined (key_words keys) else Name opts)"
    define index where "index = \<lparr>Keys = keys, IndexNamespace = Namespace c, Options = opts\<lparr>Name := nm\<rparr>\<rparr>"
    define cmd where "cmd = (if LastErrorCmd c = None then DefaultLastErrorCmd else LastErrorCmd c)"
    define c' where "c' = (if LastErrorCmd c = None then c\<lparr>LastErrorCmd := DefaultLastErrorCmd\<rparr> else c)"
    have cmd: "cmd \<noteq> None" by (simp add: cmd_def DefaultLastErrorCmd_def)
    have named: "Name opts = '''' \<Longrightarrow> IndexName keys = Inr nm"
    proof -
      assume e: "Name opts = ''''"
      then have "\<forall>(k, v) \<in> set keys. direction v \<noteq> None"
        using assms(4) by (cases options) (auto simp: opts_def)
      then show ?thesis using e by (simp add: IndexName_joined nm_def)
    qed
    have keep: "Name opts \<noteq> '''' \<Longrightarrow> opts\<lparr>Name := nm\<rparr> = opts"
      by (simp add: nm_def)
    have ns: "Namespace c' = db @ ''.'' @ col" "Conn c' = Conn c" "LastErrorCmd c' = cmd"
      using assms(1) by (simp_all add: c'_def cmd_def)
    have sp: "SplitNamespace (db @ CHR ''.'' # col) = (db, col)"
      "SplitNamespace (db @ CHR ''.'' # ''system.indexes'') = (db, ''system.indexes'')"
      using SplitNamespace_dot [OF assms(2,3)] by simp_all
    have target: "C (Db c') ''system.indexes''
          = \<lparr>Conn = Conn c, Namespace = db @ ''.system.indexes'', LastErrorCmd = cmd\<rparr>"
      by (simp add: C_def Db_def ns sp)
    have dbt: "Db \<lparr>Conn = Conn c, Namespace = db @ ''.system.indexes'', LastErrorCmd = cmd\<rparr>
          = \<lparr>DbConn = Conn c, DbName = db, DbLastErrorCmd = cmd\<rparr>"
      using sp(2) by (simp add: Db_def)
    obtain cv where cv: "cmd = Some cv" using cmd by blast
    have ins: "Insert \<lparr>Conn = Conn c, Namespace = db @ ''.system.indexes'', LastErrorCmd = cmd\<rparr>
                 [IndexDoc index] s =
               (case Conn_Insert (Conn c) (db @ ''.system.indexes'') None [IndexDoc index] s of
                      (Some e, s1) \<Rightarrow> (Some (ConnError e), s1)
                    | (None, s1) \<Rightarrow>
                        (let ((merr, err), s2) =
                               LastError \<lparr>DbConn = Conn c, DbName = db, DbLastErrorCmd = cmd\<rparr>
                                 cmd s1
                         in (err, s2)))"
      by (simp add: Insert_def checkError_def dbt Let_def cv [symmetric]
          split: prod.splits option.splits) (simp add: cv)
    have "CreateIndex c keys options s
            = Inr (Insert (C (Db c') ''system.indexes'') [IndexDoc index] s)"
    proof (cases "Name opts = ''''")
      case True
      with named show ?thesis
        by (cases options)
           (simp_all add: CreateIndex_def opts_def index_def c'_def Let_def)
    next
      case False
      with keep show ?thesis
        by (cases options)
           (simp_all add: CreateIndex_def opts_def index_def c'_def Let_def IndexOptions_zero_def)
    qed
    then have "CreateIndex c keys options s =
               Inr (case Conn_Insert (Conn c) (db @ ''.system.indexes'') None [IndexDoc index] s of
                      (Some e, s1) \<Rightarrow> (Some (ConnError e), s1)
                    | (None, s1) \<Rightarrow>
                        (let ((merr, err), s2) =
                               LastError \<lparr>DbConn = Conn c, DbName = db, DbLastErrorCmd = cmd\<rparr>
                                 cmd s1
                         in (err, s2)))"
      by (simp only: target ins)
    with cmd show ?thesis
      unfolding Let_def opts_def [symmetric] nm_def [symmetric] index_def [symmetric]
        cmd_def [symmetric]
      by simp
  qed
qed

theorem create_index_insert_witness:
  "Namespace (example_collection None) = ''test'' @ ''.'' @ ''things''
   \<and> map (direction \<circ> snd) [(''x'', go_int 1), (''loc'', go_string ''2d''), (''y'', go_int (- 1))]
       = [Some ''1'', Some ''2d'', Some ''-1'']
   \<and> CreateIndex (example_collection None)
        [(''x'', go_int 1), (''loc'', go_string ''2d''), (''y'', go_int (- 1))] None []
      = Inr (None,
          [CallInsert ''test.system.indexes''
             [IndexDoc \<lparr>Keys = [(''x'', go_int 1), (''loc'', go_string ''2d''),
                                 (''y'', go_int (- 1))],
                        IndexNamespace = ''test.things'',
                        Options = IndexOptions_zero\<lparr>Name := ''x_1_loc_2d_y_-1''\<rparr>\<rparr>],
           CallFind ''test.$cmd'' DefaultLastErrorCmd runFindOptions,
           CallNext, CallClose])
   \<and> CreateIndex (example_collection (go_int 7))
        [(''x'', Some (TInt64, VInt 1))] (Some (IndexOptions_zero\<lparr>Name := ''byx''\<rparr>)) []
      = Inr (None,
          [CallInsert ''test.system.indexes''
             [IndexDoc \<lparr>Keys = [(''x'', Some (TInt64, VInt 1))],
                        IndexNamespace = ''test.things'',
                        Options = IndexOptions_zero\<lparr>Name := ''byx''\<rparr>\<rparr>],
           CallFind ''test.$cmd'' (go_int 7) runFindOptions,
           CallNext, CallClose])
   \<and> map (direction \<circ> snd) [(''x'', go_int 1), (''y'', Some (TInt64, VInt 1))]
       = [Some ''1'', None]
   \<and> CreateIndex (example_collection DefaultLastErrorCmd)
        [(''x'', go_int 1), (''y'', Some (TInt64, VInt 1))] None [] = Inl Panicked
   \<and> CreateIndex (example_collection DefaultLastErrorCmd)
        [(''x'', go_int 1), (''y'', Some (TInt64, VInt 1))] (Some IndexOptions_zero) []
       = Inl Panicked"
proof -
  note t = create_index_insert
  have h: "Namespace (example_collection None) = ''test'' @ ''.'' @ ''things''"
    "''test'' \<noteq> ''''" "CHR ''.'' \<notin> set ''test''"
    "Namespace (example_collection (go_int 7)) = ''test'' @ ''.'' @ ''things''"
    by (simp_all add: example_collection_def)
  have d: "(case None :: IndexOptions option of Some opts \<Rightarrow> Name opts \<noteq> '''' | None \<Rightarrow> False)
    \<or> (\<forall>(k, v) \<in> set [(''x'', go_int 1), (''loc'', go_string ''2d''), (''y'', go_int (- 1))].
         direction v \<noteq> None)"
    by simp
  have n: "(case Some (IndexOptions_zero\<lparr>Name := ''byx''\<rparr>) of
              Some opts \<Rightarrow> Name opts \<noteq> '''' | None \<Rightarrow> False)
    \<or> (\<forall>(k, v) \<in> set [(''x'', Some (TInt64, VInt 1))]. direction v \<noteq> None)"
    by simp
  have w: "underscore_joined
             (key_words [(''x'', go_int 1), (''loc'', go_string ''2d''), (''y'', go_int (- 1))])
           = ''x_1_loc_2d_y_-1''"
    by (simp add: key_words_def Itoa_def digit_def)
  have m: "map (direction \<circ> snd) [(''x'', go_int 1), (''loc'', go_string ''2d''), (''y'', go_int (- 1))]
       = [Some ''1'', Some ''2d'', Some ''-1'']"
    "map (direction \<circ> snd) [(''x'', go_int 1), (''y'', Some (TInt64, VInt 1))] = [Some ''1'', None]"
    by (simp_all add: Itoa_def digit_def)
  have c1: "CreateIndex (example_collection None)
        [(''x'', go_int 1), (''loc'', go_string ''2d''), (''y'', go_int (- 1))] None []
      = Inr (None,
          [CallInsert ''test.system.indexes''
             [IndexDoc \<lparr>Keys = [(''x'', go_int 1), (''loc'', go_string ''2d''),
                                 (''y'', go_int (- 1))],
                        IndexNamespace = ''test.things'',
                        Options = IndexOptions_zero\<lparr>Name := ''x_1_loc_2d_y_-1''\<rparr>\<rparr>],
           CallFind ''test.$cmd'' DefaultLastErrorCmd runFindOptions,
           CallNext, CallClose])"
    using t [THEN conjunct1, THEN mp, OF conjI [OF h(1) conjI [OF h(2) conjI [OF h(3) d]]],
             of "[]"]
    by (simp add: w collection_eval IndexOptions_zero_def Itoa_def digit_def)
  have c2: "CreateIndex (example_collection (go_int 7))
        [(''x'', Some (TInt64, VInt 1))] (Some (IndexOptions_zero\<lparr>Name := ''byx''\<rparr>)) []
      = Inr (None,
          [CallInsert ''test.system.indexes''
             [IndexDoc \<lparr>Keys = [(''x'', Some (TInt64, VInt 1))],
                        IndexNamespace = ''test.things'',
                        Options = IndexOptions_zero\<lparr>Name := ''byx''\<rparr>\<rparr>],
           CallFind ''test.$cmd'' (go_int 7) runFindOptions,
           CallNext, CallClose])"
    using t [THEN conjunct1, THEN mp, OF conjI [OF h(4) conjI [OF h(2) conjI [OF h(3) n]]],
             of "[]"]
    by (simp add: collection_eval IndexOptions_zero_def)
  have q: "(case None :: IndexOptions option of Some opts \<Rightarrow> Name opts = '''' | None \<Rightarrow> True)
        \<and> (\<exists>(k, v) \<in> set [(''x'', go_int 1), (''y'', Some (TInt64, VInt 1))]. direction v = None)"
    "(case Some IndexOptions_zero of Some opts \<Rightarrow> Name opts = '''' | None \<Rightarrow> True)
        \<and> (\<exists>(k, v) \<in> set [(''x'', go_int 1), (''y'', Some (TInt64, VInt 1))]. direction v = None)"
    by (simp_all add: IndexOptions_zero_def)
  have c3: "CreateIndex (example_collection DefaultLastErrorCmd)
        [(''x'', go_int 1), (''y'', Some (TInt64, VInt 1))] None [] = Inl Panicked"
    using t [THEN conjunct2, THEN mp, OF q(1)] .
  have c4: "CreateIndex (example_collection DefaultLastErrorCmd)
        [(''x'', go_int 1), (''y'', Some (TInt64, VInt 1))] (Some IndexOptions_zero) []
       = Inl Panicked"
    using t [THEN conjunct2, THEN mp, OF q(2)] .
  show ?thesis
    using h(1) m c1 c2 c3 c4 by (intro conjI) assumption+
qed
section \<open>The decoder\<close>

lemmas kind_defs =
  kindFloat_def kindString_def kindDocument_def kindArray_def kindBinary_def kindObjectId_def
  kindBool_def kindDateTime_def kindNull_def kindRegexp_def kindCode_def kindSymbol_def
  kindCodeWithScope_def kindInt32_def kindTimestamp_def kindInt64_def kindMinValue_def
  kindMaxValue_def

lemmas scan_eval =
  scanByte_def scanSlice_def beginDoc_def endDoc_def scanKindName_def scanFloat_def
  scanString_def scanBinary_def scanBool_def scanInt32_def scanInt64_def skipValue_def
  saveErrorAndSkip_def saveError_def abort_def wire_Uint32_def wire_Uint64_def
  string_of_bytes_def char_of_def bit_Suc_0_iff Let_def kind_defs

lemmas type_eval =
  BSONData_t_def DateTime_t_def Timestamp_t_def MinMax_t_def ObjectId_t_def Symbol_t_def
  M_t_def typeDecoder_def decoderFor_def ptrElem_def sliceElem_def arrayElem_def
  mapKeyElem_def asIface_def asPtr_def asMap_def asSlice_def asArray_def

lemmas decode_eval =
  Decode_def decodeInternal_def handleAbort_def applyDecoder_def skipped_def
  decodeBool_def decodeFloat_def decodeInt_def decodeUint_def decodeTimestamp_def
  decodeDateTime_def decodeString_def decodeObjectId_def decodeBSONData_def
  decodeByteSlice_def decodeMinMax_def decodeInterface_def decodeMapStringInterface_def
  decodeMap_def decodeSlice_def decodeArray_def decodeStruct_def
  sliceMakeRoom_def structField_def structSpecForType_def fieldSpec_def FieldInfo_def
  buildStructInfo_def fieldTag_def Append_def
  OverflowInt_def OverflowUint_def OverflowFloat_def
  pointer_to_zero_def empty_map_target_def

text \<open>
  The scanners report the end of the data and a wrong document length; every read of
  the decoders but the slice expression of \<open>decodeBSONData\<close> passes through them.
\<close>

lemma scanByte_end:
  "int (length (data d)) \<le> offset d \<Longrightarrow> scanByte d = Inl (Aborted ErrEOD)"
  by (simp add: scanByte_def abort_def)

lemma scanSlice_end:
  "int (length (data d)) < offset d + n \<Longrightarrow> scanSlice n d = Inl (Aborted ErrEOD)"
  by (simp add: scanSlice_def abort_def Let_def)

lemma endDoc_mismatch:
  "offset d \<noteq> off \<Longrightarrow> endDoc off d = Inl (Aborted ErrDocLength)"
  by (simp add: endDoc_def abort_def)

text \<open>
  Whatever \<open>decodeValueInterface\<close> returns for an element has the canonical type of the
  element's kind; for a null element it returns \<open>nil\<close>.
\<close>

lemma decodeValueInterface_canonical_type:
  assumes "decodeValueInterface fuel kind d = Inr (x, d')"
  shows "map_option fst x = canonical_type kind"
proof (cases fuel)
  case 0
  with assms show ?thesis by simp
next
  case (Suc n)
  show ?thesis
    using assms unfolding Suc decodeValueInterface.simps canonical_type_def
    by (auto simp: kind_defs abort_def split: if_splits sum.splits prod.splits)
qed

text \<open>
  Claim C1, evaluated on the code. The input \<open>08 00 00 00\<close> declares a document of eight
  bytes and ends after four. Decoded into a \<open>*BSONData\<close>, the raw carrier, the premature
  end of the data is not reported: \<open>skipValue\<close> moves the offset to 8 without a bounds
  check and \<open>decodeBSONData\<close> slices \<open>d.data[0:8]\<close>. When the input slice has no spare
  capacity this is a runtime panic, which \<open>handleAbort\<close> does not recover; when it has,
  \<open>Decode\<close> returns \<open>nil\<close> and the carrier holds four bytes from beyond the input.
\<close>

theorem decode_truncated_into_BSONData:
  "Decode (Suc fuel) fp [8, 0, 0, 0] [] (pointer_to_zero BSONData_t) = Inl Panicked
   \<and> Decode (Suc fuel) fp [8, 0, 0, 0] [1, 2, 3, 4] (pointer_to_zero BSONData_t)
       = Inr (None,
              Some (VPtr (Some (VStruct
                [VInt kindDocument,
                 VSlice (Some ([VUint 8, VUint 0, VUint 0, VUint 0,
                                VUint 1, VUint 2, VUint 3, VUint 4], []))]))))"
  by (simp add: scan_eval type_eval decode_eval)

text \<open>
  An unsigned target of 64 bits is as wide as an \<open>int64\<close>, and there the overflow test
  does not see a negative number. The document \<open>{a: int64(-1)}\<close> is decoded into a
  \<open>map[string]uint64\<close> and into a struct whose field \<open>a\<close> is a \<open>uint64\<close>: \<open>decodeUint\<close>
  converts the \<open>int64\<close> to \<open>uint64\<close> before the test, so the test sees \<open>2^64 - 1\<close>, no
  error is recorded and the entry, or the field, is set to \<open>18446744073709551615\<close>. Into
  a \<open>uint32\<close> field the same document records the conversion error and leaves the field
  unchanged.
\<close>

lemma decodeUint_wraps_negative:
  "Decode (Suc (Suc (Suc fuel))) fp doc_minus_one [] (empty_map_of TUint64)
     = Inr (None, Some (VMap (Some [(''a'', VUint 18446744073709551615)])))
   \<and> Decode (Suc (Suc (Suc fuel))) fp doc_minus_one [] (pointer_to_zero example_uint64_struct)
     = Inr (None, Some (VPtr (Some (VStruct [VUint 18446744073709551615]))))
   \<and> Decode (Suc (Suc (Suc fuel))) fp doc_minus_one [] (pointer_to_zero example_uint32_struct)
     = Inr (Some (DecodeConvertError kindInt64 TUint32),
            Some (VPtr (Some (VStruct [VUint 0]))))"
  by (simp add: scan_eval type_eval decode_eval doc_minus_one_def example_uint64_struct_def
      example_uint32_struct_def empty_map_of_def)

text \<open>
  Claim C3, evaluated on the code. The element \<open>a\<close> of \<open>{a: int32(5), b: int32(7)}\<close> has a
  known kind that a \<open>MinMax\<close> target does not accept: \<open>decodeMinMax\<close> saves the error and
  does not skip the four bytes, which are then read as the next element. Into a
  \<open>map[string]MinMax\<close> \<open>Decode\<close> ends in ``doc length wrong'', and into a struct with the
  \<open>MinMax\<close> field \<open>a\<close> in \<open>ErrEOD\<close>; \<open>b\<close> is never decoded. In \<open>{m: int32(5), b: int32(7)}\<close>
  the field \<open>m\<close> is a \<open>map[string]interface{}\<close>: \<open>decodeMapStringInterface\<close> skips the four
  bytes and then, without returning, reads a document from the bytes of \<open>b\<close>, and
  \<open>Decode\<close> ends in ``doc length wrong''. Where the field \<open>a\<close> is a \<open>string\<close>, the element is
  skipped as the claim says: the conversion error is returned and \<open>b\<close> is decoded.
\<close>

theorem mismatch_not_skipped:
  "Decode (Suc (Suc (Suc (Suc fuel)))) fp doc_a5_b7 [] (empty_map_of MinMax_t)
     = Inr (Some ErrDocLength, None)
   \<and> Decode (Suc (Suc (Suc (Suc fuel)))) fp doc_a5_b7 [] (pointer_to_zero example_minmax_struct)
     = Inr (Some ErrEOD, None)
   \<and> Decode (Suc (Suc (Suc fuel))) fp doc_m5_b7 [] (pointer_to_zero example_map_struct)
     = Inr (Some ErrDocLength, None)
   \<and> Decode (Suc (Suc (Suc (Suc fuel)))) fp doc_a5_b7 [] (pointer_to_zero example_string_struct)
     = Inr (Some (DecodeConvertError kindInt32 TString),
            Some (VPtr (Some (VStruct [VString [], VInt 7]))))"
  by (simp add: scan_eval type_eval decode_eval doc_a5_b7_def doc_m5_b7_def
      example_minmax_struct_def example_map_struct_def example_string_struct_def
      empty_map_of_def)

text \<open>
  Claim C4, evaluated on the code. Decoded into a \<open>map[string]interface{}\<close>, the null
  element of \<open>{b: null}\<close> leaves no entry in the map, but the null element inside the
  nested document of \<open>{a: {b: null}}\<close> becomes an entry \<open>b\<close> with the value \<open>nil\<close> in the
  nested map: the loop of \<open>decodeValueInterface\<close> has no test for null.
\<close>

theorem nested_null_is_an_entry:
  "Decode (Suc (Suc (Suc (Suc (Suc fuel))))) fp doc_nested_null [] empty_map_target
     = Inr (None,
            Some (VMap (Some
              [(''a'', VIface (Some (TMap TString (TInterface []),
                                      VMap (Some [(''b'', VIface None)]))))])))
   \<and> Decode (Suc (Suc (Suc fuel))) fp doc_null [] empty_map_target
     = Inr (None, Some (VMap (Some [])))"
  by (simp add: scan_eval type_eval decode_eval doc_nested_null_def doc_null_def)

section \<open>The decoder: the saved error\<close>




lemma keeps_saveError: "keeps_first_error d (saveError err d)"
  by (simp add: keeps_first_error_def saveError_def)




























































section \<open>The decoder: targets\<close>

text \<open>
  Claim C10 as stated fails for a target that is a \<open>reflect.Value\<close>: it is a value that is
  neither a pointer nor a map, and \<open>decodeInternal\<close> makes none of its three checks on it.
  With one that holds a map \<open>Decode\<close> decodes into the map and returns no error; with one
  that holds a nil map \<open>Decode\<close> panics.
\<close>

theorem decode_reflect_value_counterexample:
  "invalid_target (ReflectValue (TMap TString (TInterface [])) (VMap (Some [])) False)
   \<and> Decode (Suc (Suc 0)) example_floatOps [5, 0, 0, 0, 0] []
         (ReflectValue (TMap TString (TInterface [])) (VMap (Some [])) False)
       = Inr (None, Some (VMap (Some [])))
   \<and> invalid_target (ReflectValue (TMap TString (TInterface [])) (VMap None) False)
   \<and> Decode (Suc (Suc 0)) example_floatOps [5, 0, 0, 0, 0] []
         (ReflectValue (TMap TString (TInterface [])) (VMap None) False)
       = Inl Panicked"
  by (simp add: invalid_target_def scan_eval type_eval decode_eval)

text \<open>
  Claim C10, amended. Called with an invalid target that is not a \<open>reflect.Value\<close> (\<open>nil\<close>
  or a value that is neither a pointer nor a map, a nil map, a nil pointer),
  \<open>decodeInternal\<close>, and so \<open>Decode\<close>, returns an error for every input: it does not panic
  and does not depend on the fuel. A target that is a \<open>reflect.Value\<close> is decoded into as
  it stands, without these checks: what \<open>decodeValue\<close> returns for it is what \<open>Decode\<close>
  returns, and a \<open>reflect.Value\<close> that cannot be set and holds a nil pointer, or a nil map
  with strings as keys, makes \<open>Decode\<close> panic. An abort raised by \<open>decodeValue\<close> on any of
  the three forms of a valid target is returned as the error of \<open>decodeInternal\<close>, and no
  abort leaves \<open>decodeInternal\<close>.
\<close>

theorem decode_invalid_target:
  "(invalid_target v \<and> \<not> is_reflect_Value v \<longrightarrow>
      (\<exists>err. decodeInternal fuel fp kind bytes rest v = Inr (Some err, None))
      \<and> (\<exists>err. Decode fuel fp bytes rest v = Inr (Some err, None)))
   \<and> (decodeValue fuel fp kind t x addr
         \<lparr>data = bytes, spare = rest, offset = 0, savedError = None\<rparr> = Inr (x', d')
       \<longrightarrow> decodeInternal fuel fp kind bytes rest (ReflectValue t x addr)
           = Inr (savedError d', Some x'))
   \<and> Decode (Suc fuel) fp bytes rest (ReflectValue (TPtr e) (VPtr None) False) = Inl Panicked
   \<and> Decode (Suc fuel) fp bytes rest (ReflectValue (TMap TString e) (VMap None) False)
       = Inl Panicked
   \<and> (decodeValue fuel fp kind t x addr
         \<lparr>data = bytes, spare = rest, offset = 0, savedError = None\<rparr> = Inl (Aborted err)
       \<longrightarrow> decodeInternal fuel fp kind bytes rest (ReflectValue t x addr)
           = Inr (Some err, None))
   \<and> (Kind_of t = reflect_Map \<and> x \<noteq> VMap None
       \<and> decodeValue fuel fp kind t x False
           \<lparr>data = bytes, spare = rest, offset = 0, savedError = None\<rparr> = Inl (Aborted err)
       \<longrightarrow> decodeInternal fuel fp kind bytes rest (Other (Some (t, x)))
           = Inr (Some err, None))
   \<and> (Kind_of t = reflect_Ptr \<and> ptrElem t = Some e
       \<and> decodeValue fuel fp kind e y True
           \<lparr>data = bytes, spare = rest, offset = 0, savedError = None\<rparr> = Inl (Aborted err)
       \<longrightarrow> decodeInternal fuel fp kind bytes rest (Other (Some (t, VPtr (Some y))))
           = Inr (Some err, None))
   \<and> decodeInternal fuel fp kind bytes rest v \<noteq> Inl (Aborted err)"
proof (intro conjI impI)
  assume iv': "invalid_target v \<and> \<not> is_reflect_Value v"
  then have iv: "invalid_target v" and nr: "\<not> is_reflect_Value v" by simp_all
  show "\<exists>err. decodeInternal fuel fp kind bytes rest v = Inr (Some err, None)" for kind
  proof (cases v)
    case (ReflectValue t x addr)
    with nr show ?thesis by (simp add: is_reflect_Value_def)
  next
    case (Other i)
    show ?thesis
    proof (cases i)
      case None
      with Other show ?thesis by (simp add: decodeInternal_def handleAbort_def)
    next
      case (Some tx)
      obtain t x where tx: "tx = (t, x)" by (cases tx)
      from iv Other Some tx
      consider (m) "Kind_of t = reflect_Map" "x = VMap None"
        | (p) "Kind_of t = reflect_Ptr" "x = VPtr None"
        | (o) "Kind_of t \<noteq> reflect_Map" "Kind_of t \<noteq> reflect_Ptr"
        by (auto simp: invalid_target_def)
      then show ?thesis
      proof cases
        case m
        with Other Some tx show ?thesis by (simp add: decodeInternal_def handleAbort_def)
      next
        case p
        with Other Some tx show ?thesis
          by (simp add: decodeInternal_def handleAbort_def asPtr_def)
      next
        case o
        with Other Some tx show ?thesis by (simp add: decodeInternal_def handleAbort_def)
      qed
    qed
  qed
  then show "\<exists>err. Decode fuel fp bytes rest v = Inr (Some err, None)"
    by (simp add: Decode_def)
next
  assume "decodeValue fuel fp kind t x addr
         \<lparr>data = bytes, spare = rest, offset = 0, savedError = None\<rparr> = Inr (x', d')"
  then show "decodeInternal fuel fp kind bytes rest (ReflectValue t x addr)
           = Inr (savedError d', Some x')"
    by (simp add: decodeInternal_def handleAbort_def)
next
  show "Decode (Suc fuel) fp bytes rest (ReflectValue (TPtr e) (VPtr None) False) = Inl Panicked"
    by (simp add: Decode_def decodeInternal_def handleAbort_def ptrElem_def asPtr_def)
next
  show "Decode (Suc fuel) fp bytes rest (ReflectValue (TMap TString e) (VMap None) False)
       = Inl Panicked"
    by (cases "e = TInterface []")
       (simp_all add: Decode_def decodeInternal_def handleAbort_def type_eval applyDecoder_def
          decodeMap_def decodeMapStringInterface_def)
next
  assume "decodeValue fuel fp kind t x addr
         \<lparr>data = bytes, spare = rest, offset = 0, savedError = None\<rparr> = Inl (Aborted err)"
  then show "decodeInternal fuel fp kind bytes rest (ReflectValue t x addr)
           = Inr (Some err, None)"
    by (simp add: decodeInternal_def handleAbort_def)
next
  assume "Kind_of t = reflect_Map \<and> x \<noteq> VMap None
       \<and> decodeValue fuel fp kind t x False
           \<lparr>data = bytes, spare = rest, offset = 0, savedError = None\<rparr> = Inl (Aborted err)"
  then show "decodeInternal fuel fp kind bytes rest (Other (Some (t, x)))
           = Inr (Some err, None)"
    by (simp add: decodeInternal_def handleAbort_def)
next
  assume "Kind_of t = reflect_Ptr \<and> ptrElem t = Some e
       \<and> decodeValue fuel fp kind e y True
           \<lparr>data = bytes, spare = rest, offset = 0, savedError = None\<rparr> = Inl (Aborted err)"
  then show "decodeInternal fuel fp kind bytes rest (Other (Some (t, VPtr (Some y))))
           = Inr (Some err, None)"
    by (auto simp: decodeInternal_def handleAbort_def asPtr_def)
next
  show "decodeInternal fuel fp kind bytes rest v \<noteq> Inl (Aborted err)"
    by (simp add: decodeInternal_def handleAbort_def split: sum.splits fault.splits)
qed

theorem decode_invalid_target_witness:
  "invalid_target (Other (go_int 5)) \<and> is_reflect_Value (Other (go_int 5)) = False
   \<and> Decode (Suc 0) example_floatOps [5, 0, 0, 0, 0] [] (Other (go_int 5))
       = Inr (Some ErrNotPointerOrMap, None)
   \<and> invalid_target (Other (Some (TPtr TInt, VPtr None)))
   \<and> Decode (Suc 0) example_floatOps [5, 0, 0, 0, 0] [] (Other (Some (TPtr TInt, VPtr None)))
       = Inr (Some ErrPointerNil, None)
   \<and> invalid_target (Other (Some (M_t, VMap None)))
   \<and> Decode (Suc 0) example_floatOps [5, 0, 0, 0, 0] [] (Other (Some (M_t, VMap None)))
       = Inr (Some ErrMapNil, None)
   \<and> decodeValue (Suc (Suc 0)) example_floatOps kindDocument (TMap TString (TInterface []))
        (VMap (Some [])) False
        \<lparr>data = [5, 0, 0, 0, 0], spare = [], offset = 0, savedError = None\<rparr>
       = Inr (VMap (Some []),
              \<lparr>data = [5, 0, 0, 0, 0], spare = [], offset = 5, savedError = None\<rparr>)
   \<and> decodeInternal (Suc (Suc 0)) example_floatOps kindDocument [5, 0, 0, 0, 0] []
        (ReflectValue (TMap TString (TInterface [])) (VMap (Some [])) False)
       = Inr (None, Some (VMap (Some [])))
   \<and> decodeValue (Suc (Suc 0)) example_floatOps kindDocument (TMap TString (TInterface []))
        (VMap (Some [])) False
        \<lparr>data = [5, 0, 0, 0], spare = [], offset = 0, savedError = None\<rparr>
       = Inl (Aborted ErrEOD)
   \<and> decodeInternal (Suc (Suc 0)) example_floatOps kindDocument [5, 0, 0, 0] []
        (ReflectValue (TMap TString (TInterface [])) (VMap (Some [])) False)
       = Inr (Some ErrEOD, None)
   \<and> decodeInternal (Suc (Suc 0)) example_floatOps kindDocument [5, 0, 0, 0] [] empty_map_target
       = Inr (Some ErrEOD, None)
   \<and> decodeValue (Suc (Suc 0)) example_floatOps kindDocument TInt (VInt 0) True
        \<lparr>data = [5, 0, 0], spare = [], offset = 0, savedError = None\<rparr>
       = Inl (Aborted ErrEOD)
   \<and> decodeInternal (Suc (Suc 0)) example_floatOps kindDocument [5, 0, 0] []
        (Other (Some (TPtr TInt, VPtr (Some (VInt 0)))))
       = Inr (Some ErrEOD, None)"
proof -
  note t = decode_invalid_target
  have i: "invalid_target (Other (go_int 5)) \<and> \<not> is_reflect_Value (Other (go_int 5))"
    "invalid_target (Other (Some (TPtr TInt, VPtr None)))
      \<and> \<not> is_reflect_Value (Other (Some (TPtr TInt, VPtr None)))"
    "invalid_target (Other (Some (M_t, VMap None)))
      \<and> \<not> is_reflect_Value (Other (Some (M_t, VMap None)))"
    by (simp_all add: invalid_target_def is_reflect_Value_def M_t_def)
  have e: "Decode (Suc 0) example_floatOps [5, 0, 0, 0, 0] [] (Other (go_int 5))
       = Inr (Some ErrNotPointerOrMap, None)"
    "Decode (Suc 0) example_floatOps [5, 0, 0, 0, 0] [] (Other (Some (TPtr TInt, VPtr None)))
       = Inr (Some ErrPointerNil, None)"
    "Decode (Suc 0) example_floatOps [5, 0, 0, 0, 0] [] (Other (Some (M_t, VMap None)))
       = Inr (Some ErrMapNil, None)"
    using i
      t [of "Other (go_int 5)" "Suc 0" example_floatOps kindDocument "[5, 0, 0, 0, 0]" "[]"]
      t [of "Other (Some (TPtr TInt, VPtr None))" "Suc 0" example_floatOps kindDocument
           "[5, 0, 0, 0, 0]" "[]"]
      t [of "Other (Some (M_t, VMap None))" "Suc 0" example_floatOps kindDocument
           "[5, 0, 0, 0, 0]" "[]"]
    by (simp_all add: decodeInternal_def Decode_def handleAbort_def asPtr_def M_t_def)
  have r: "decodeValue (Suc (Suc 0)) example_floatOps kindDocument (TMap TString (TInterface []))
        (VMap (Some [])) False
        \<lparr>data = [5, 0, 0, 0, 0], spare = [], offset = 0, savedError = None\<rparr>
       = Inr (VMap (Some []),
              \<lparr>data = [5, 0, 0, 0, 0], spare = [], offset = 5, savedError = None\<rparr>)"
    by (simp add: scan_eval type_eval decode_eval)
  have a: "decodeValue (Suc (Suc 0)) example_floatOps kindDocument (TMap TString (TInterface []))
        (VMap (Some [])) False
        \<lparr>data = [5, 0, 0, 0], spare = [], offset = 0, savedError = None\<rparr>
       = Inl (Aborted ErrEOD)"
    by (simp add: scan_eval type_eval decode_eval)
  have p: "decodeValue (Suc (Suc 0)) example_floatOps kindDocument TInt (VInt 0) True
        \<lparr>data = [5, 0, 0], spare = [], offset = 0, savedError = None\<rparr>
       = Inl (Aborted ErrEOD)"
    by (simp add: scan_eval type_eval decode_eval)
  have k: "Kind_of (TMap TString (TInterface [])) = reflect_Map \<and> VMap (Some []) \<noteq> VMap None"
    "Kind_of (TPtr TInt) = reflect_Ptr \<and> ptrElem (TPtr TInt) = Some TInt"
    by (simp_all add: ptrElem_def)
  have r': "decodeInternal (Suc (Suc 0)) example_floatOps kindDocument [5, 0, 0, 0, 0] []
        (ReflectValue (TMap TString (TInterface [])) (VMap (Some [])) False)
       = Inr (savedError \<lparr>data = [5, 0, 0, 0, 0], spare = [], offset = 5, savedError = None\<rparr>,
              Some (VMap (Some [])))"
    using t [THEN conjunct2, THEN conjunct1, THEN mp, OF r] .
  have a1: "decodeInternal (Suc (Suc 0)) example_floatOps kindDocument [5, 0, 0, 0] []
        (ReflectValue (TMap TString (TInterface [])) (VMap (Some [])) False)
       = Inr (Some ErrEOD, None)"
    using t [THEN conjunct2, THEN conjunct2, THEN conjunct2, THEN conjunct2, THEN conjunct1,
             THEN mp, OF a] .
  have a2: "decodeInternal (Suc (Suc 0)) example_floatOps kindDocument [5, 0, 0, 0] []
        empty_map_target = Inr (Some ErrEOD, None)"
    unfolding empty_map_target_def
    using t [THEN conjunct2, THEN conjunct2, THEN conjunct2, THEN conjunct2, THEN conjunct2,
             THEN conjunct1, THEN mp, OF conjI [OF k(1) [THEN conjunct1]
               conjI [OF k(1) [THEN conjunct2] a]]] .
  have a3: "decodeInternal (Suc (Suc 0)) example_floatOps kindDocument [5, 0, 0] []
        (Other (Some (TPtr TInt, VPtr (Some (VInt 0))))) = Inr (Some ErrEOD, None)"
    using t [THEN conjunct2, THEN conjunct2, THEN conjunct2, THEN conjunct2, THEN conjunct2,
             THEN conjunct2, THEN conjunct1, THEN mp, OF conjI [OF k(2) [THEN conjunct1]
               conjI [OF k(2) [THEN conjunct2] p]]] .
  have nr: "is_reflect_Value (Other (go_int 5)) = False"
    by (simp add: is_reflect_Value_def)
  from r' have r'': "decodeInternal (Suc (Suc 0)) example_floatOps kindDocument [5, 0, 0, 0, 0] []
        (ReflectValue (TMap TString (TInterface [])) (VMap (Some [])) False)
       = Inr (None, Some (VMap (Some [])))"
    by simp
  show ?thesis
    using i [THEN conjunct1] nr e r r'' a a1 a2 p a3
    by (intro conjI) assumption+
qed
end
